theory Spec2Isabelle
  imports Complex_Main "HOL-Library.AList" "HOL-Library.Char_ord"
    "HOL-Library.List_Lexorder" "HOL-Library.Product_Lexorder"
begin

section \<open>Data model of \<open>DXC_Analytics.py\<close>\<close>

text \<open>
  The script keeps every dispatch in one pandas data frame, \<open>dispatches_df\<close>, and
  rewrites three of its columns in place before any chart is computed. A frame is
  modelled as the list of its rows in index order. Cells are dynamically typed in
  pandas, so the two columns whose type changes during pre-processing
  (\<open>CheckInDate\<close>, \<open>Hours\<close>) carry a tagged value.
\<close>

text \<open>
  A pandas \<open>Timestamp\<close>, kept as the calendar month it falls in
  (\<open>12 * year + (month - 1)\<close>), the day of that month and the time of day in
  nanoseconds. Only the calendar month is read by the script.
\<close>

record timestamp =
  month_index :: int
  day :: nat
  nanos :: nat

datatype date_cell = DateStr string | Timestamp timestamp

text \<open>A JSON scalar as it arrives in the \<open>Hours\<close> column.\<close>

datatype cell = Null | Num real | Str string

text \<open>
  Modelled from the spec: the schema of the table \<open>live_dispatches\<close>, which is not
  part of the source. \<open>CheckInDate\<close> is a server-provided date string and is never
  null, \<open>Hours\<close> is numeric or absent (or anything else the server sends), \<open>Site\<close> is
  a string, \<open>Subtype\<close> and \<open>Item\<close> are strings that may be null. A missing
  \<open>Hours\<close> column is \<open>Null\<close> in every row: line 38 substitutes a column of zeros for
  it, which is what \<open>fillna(0)\<close> makes of the nulls. The column \<open>month_year_str\<close> is
  written at line 41 before it is ever read, so the value a fetched row carries
  there is immaterial.
\<close>

record row =
  CheckInDate :: date_cell
  Hours :: cell
  Site :: string
  Subtype :: "string option"
  Item :: "string option"
  month_year_str :: string

type_synonym frame = "row list"

datatype error = ParserError | TypeError | IndexError | AttributeError | StreamlitAPIException

section \<open>Pre-processing (lines 35 to 41)\<close>

text \<open>
  \<open>pd.to_datetime\<close> leaves a timestamp as it is and parses a string; with the
  default \<open>errors='raise'\<close> one unparseable string aborts the whole conversion. The
  parser itself belongs to pandas and is a parameter.
\<close>

fun to_datetime :: "(string \<Rightarrow> timestamp option) \<Rightarrow> date_cell \<Rightarrow> error + date_cell" where
  "to_datetime parse_date (Timestamp t) = Inr (Timestamp t)"
| "to_datetime parse_date (DateStr s) =
     (case parse_date s of None \<Rightarrow> Inl ParserError | Some t \<Rightarrow> Inr (Timestamp t))"

fun to_datetime_col :: "(string \<Rightarrow> timestamp option) \<Rightarrow> frame \<Rightarrow> error + frame" where
  "to_datetime_col parse_date [] = Inr []"
| "to_datetime_col parse_date (r # rs) =
     (case to_datetime parse_date (CheckInDate r) of
        Inl e \<Rightarrow> Inl e
      | Inr d \<Rightarrow>
          (case to_datetime_col parse_date rs of
             Inl e \<Rightarrow> Inl e
           | Inr rs' \<Rightarrow> Inr (r\<lparr>CheckInDate := d\<rparr> # rs')))"

text \<open>
  \<open>pd.to_numeric(..., errors='coerce')\<close>: a number stays, a string is parsed and
  becomes NaN (\<open>Null\<close>) when it is not a number, null stays NaN. The parser of
  numeric strings is again a parameter.
\<close>

fun to_numeric :: "(string \<Rightarrow> real option) \<Rightarrow> cell \<Rightarrow> cell" where
  "to_numeric parse_num Null = Null"
| "to_numeric parse_num (Num x) = Num x"
| "to_numeric parse_num (Str s) = (case parse_num s of None \<Rightarrow> Null | Some x \<Rightarrow> Num x)"

fun fillna :: "real \<Rightarrow> cell \<Rightarrow> cell" where
  "fillna v Null = Num v"
| "fillna v c = c"

text \<open>
  \<open>str\<close> of a monthly period: four digits of year, a dash, two digits of month.
  The timestamps of pandas lie between the years 1677 and 2262.
\<close>

definition digit_char :: "nat \<Rightarrow> char" where
  "digit_char n = ''0123456789'' ! (n mod 10)"

definition ts_year :: "timestamp \<Rightarrow> int" where
  "ts_year t = month_index t div 12"

definition ts_month :: "timestamp \<Rightarrow> nat" where
  "ts_month t = nat (month_index t mod 12) + 1"

definition period_str :: "timestamp \<Rightarrow> string" where
  "period_str t =
     (let y = nat (ts_year t); m = ts_month t
      in [digit_char (y div 1000), digit_char (y div 100), digit_char (y div 10), digit_char y,
          CHR ''-'', digit_char (m div 10), digit_char m])"

text \<open>
  \<open>.dt.to_period('M').astype(str)\<close>. The \<open>.dt\<close> accessor exists on a datetime
  column only; after a successful line 35 every cell is a timestamp.
\<close>

fun month_year_of :: "date_cell \<Rightarrow> error + string" where
  "month_year_of (Timestamp t) = Inr (period_str t)"
| "month_year_of (DateStr s) = Inl AttributeError"

fun add_month_year_str :: "frame \<Rightarrow> error + frame" where
  "add_month_year_str [] = Inr []"
| "add_month_year_str (r # rs) =
     (case month_year_of (CheckInDate r) of
        Inl e \<Rightarrow> Inl e
      | Inr m \<Rightarrow>
          (case add_month_year_str rs of
             Inl e \<Rightarrow> Inl e
           | Inr rs' \<Rightarrow> Inr (r\<lparr>month_year_str := m\<rparr> # rs')))"

definition normalize ::
  "(string \<Rightarrow> timestamp option) \<Rightarrow> (string \<Rightarrow> real option) \<Rightarrow> frame \<Rightarrow> error + frame" where
  "normalize parse_date parse_num df =
     (case to_datetime_col parse_date df of
        Inl e \<Rightarrow> Inl e
      | Inr df1 \<Rightarrow>
          add_month_year_str
            (map (\<lambda>r. r\<lparr>Hours := fillna 0 (to_numeric parse_num (Hours r))\<rparr>) df1))"

section \<open>Group-by and aggregation\<close>

text \<open>
  \<open>df.groupby(key)\<close> with the defaults \<open>sort=True\<close> and \<open>dropna=True\<close>: rows with
  a null key are dropped, the group keys come out in ascending order, and each
  group keeps its rows in frame order. The aggregate is applied to each group.
\<close>

definition groupby_agg :: "('r \<Rightarrow> 'k::linorder option) \<Rightarrow> ('r list \<Rightarrow> 'v) \<Rightarrow> 'r list \<Rightarrow> ('k \<times> 'v) list" where
  "groupby_agg key agg df =
     map (\<lambda>k. (k, agg (filter (\<lambda>r. key r = Some k) df)))
       (sort (remdups (List.map_filter key df)))"

text \<open>
  The aggregate \<open>('CheckInDate', 'count')\<close> counts the non-null dates of a group;
  no date is null, so it is the size of the group.
\<close>

definition count_agg :: "row list \<Rightarrow> nat" where
  "count_agg g = length g"

text \<open>
  \<open>Series.mean()\<close>: nulls are skipped, the mean of no value is NaN (\<open>None\<close>), and a
  string in the column raises.
\<close>

fun numeric_values :: "cell list \<Rightarrow> error + real list" where
  "numeric_values [] = Inr []"
| "numeric_values (Null # cs) = numeric_values cs"
| "numeric_values (Num x # cs) =
     (case numeric_values cs of Inl e \<Rightarrow> Inl e | Inr xs \<Rightarrow> Inr (x # xs))"
| "numeric_values (Str s # cs) = Inl TypeError"

definition mean :: "real list \<Rightarrow> real option" where
  "mean xs = (if xs = [] then None else Some (sum_list xs / real (length xs)))"

definition series_mean :: "cell list \<Rightarrow> error + real option" where
  "series_mean cs = (case numeric_values cs of Inl e \<Rightarrow> Inl e | Inr xs \<Rightarrow> Inr (mean xs))"

section \<open>Monthly breakdown (lines 46 to 76)\<close>

definition breakdown_month_options :: "frame \<Rightarrow> string list" where
  "breakdown_month_options df = rev (sort (remdups (map month_year_str df)))"

definition selected_breakdown_df :: "frame \<Rightarrow> string \<Rightarrow> frame" where
  "selected_breakdown_df df m = filter (\<lambda>r. month_year_str r = m) df"

definition total_tickets :: "frame \<Rightarrow> nat" where
  "total_tickets sel = length sel"

definition avg_time_to_close :: "frame \<Rightarrow> error + real option" where
  "avg_time_to_close sel = series_mean (map Hours sel)"

definition tickets_per_site :: "frame \<Rightarrow> (string \<times> nat) list" where
  "tickets_per_site sel = groupby_agg (\<lambda>r. Some (Site r)) count_agg sel"

section \<open>Monthly trend (lines 96 to 99)\<close>

text \<open>
  \<open>groupby(pd.Grouper(key='CheckInDate', freq='ME'))\<close> resamples: it needs a
  datetime column, cuts the span from the earliest to the latest timestamp into
  calendar months and yields one bin for every month of that span, labelled with
  the last day of the month at midnight. A bin without rows has count 0 and mean
  NaN.
\<close>

fun cell_month :: "date_cell \<Rightarrow> int option" where
  "cell_month (Timestamp t) = Some (month_index t)"
| "cell_month (DateStr s) = None"

fun datetime_months :: "frame \<Rightarrow> error + int list" where
  "datetime_months [] = Inr []"
| "datetime_months (r # rs) =
     (case cell_month (CheckInDate r) of
        None \<Rightarrow> Inl TypeError
      | Some i \<Rightarrow>
          (case datetime_months rs of Inl e \<Rightarrow> Inl e | Inr ms \<Rightarrow> Inr (i # ms)))"

definition is_leap_year :: "int \<Rightarrow> bool" where
  "is_leap_year y \<longleftrightarrow> y mod 4 = 0 \<and> (y mod 400 = 0 \<or> y mod 100 \<noteq> 0)"

definition days_in_month :: "int \<Rightarrow> nat" where
  "days_in_month i =
     (let m = i mod 12 + 1
      in if m = 2 then (if is_leap_year (i div 12) then 29 else 28)
         else if m = 4 \<or> m = 6 \<or> m = 9 \<or> m = 11 then 30 else 31)"

definition month_end :: "int \<Rightarrow> timestamp" where
  "month_end i = \<lparr>month_index = i, day = days_in_month i, nanos = 0\<rparr>"

text \<open>Chronological order of timestamps: by month, then day, then time of day.\<close>

definition ts_before :: "timestamp \<Rightarrow> timestamp \<Rightarrow> bool" where
  "ts_before a b \<longleftrightarrow>
     (month_index a, day a, nanos a) < (month_index b, day b, nanos b)"

record trend_row =
  tr_CheckInDate :: timestamp
  tr_total_tickets :: nat
  tr_avg_hours :: "real option"

definition in_month :: "frame \<Rightarrow> int \<Rightarrow> frame" where
  "in_month df i = filter (\<lambda>r. cell_month (CheckInDate r) = Some i) df"

fun trend_rows :: "frame \<Rightarrow> int list \<Rightarrow> error + trend_row list" where
  "trend_rows df [] = Inr []"
| "trend_rows df (i # is) =
     (case series_mean (map Hours (in_month df i)) of
        Inl e \<Rightarrow> Inl e
      | Inr a \<Rightarrow>
          (case trend_rows df is of
             Inl e \<Rightarrow> Inl e
           | Inr rs \<Rightarrow>
               Inr (\<lparr>tr_CheckInDate = month_end i,
                     tr_total_tickets = count_agg (in_month df i),
                     tr_avg_hours = a\<rparr> # rs)))"

definition monthly_data :: "frame \<Rightarrow> error + trend_row list" where
  "monthly_data df =
     (case datetime_months df of
        Inl e \<Rightarrow> Inl e
      | Inr [] \<Rightarrow> Inr []
      | Inr (m # ms) \<Rightarrow> trend_rows df [fold min ms m .. fold max ms m])"

section \<open>Average ticket count per site and per month (lines 137 to 165)\<close>

definition tickets_per_site_per_month :: "frame \<Rightarrow> ((string \<times> string) \<times> nat) list" where
  "tickets_per_site_per_month df =
     groupby_agg (\<lambda>r. Some (Site r, month_year_str r)) count_agg df"

definition avg_tickets_by_site ::
  "((string \<times> string) \<times> nat) list \<Rightarrow> (string \<times> real option) list" where
  "avg_tickets_by_site tpm =
     groupby_agg (\<lambda>((s, m), c). Some s) (\<lambda>g. mean (map (\<lambda>(k, c). real c) g)) tpm"

definition tickets_by_month :: "frame \<Rightarrow> (string \<times> nat) list" where
  "tickets_by_month df = groupby_agg (\<lambda>r. Some (month_year_str r)) count_agg df"

section \<open>Subtype and site breakdown (lines 187 to 262)\<close>

text \<open>\<open>dropna(subset=['Subtype', 'Item'])\<close> drops a row when either cell is null.\<close>

definition filtered_tickets :: "frame \<Rightarrow> frame" where
  "filtered_tickets df = filter (\<lambda>r. Subtype r \<noteq> None \<and> Item r \<noteq> None) df"

definition pie_month_options :: "frame \<Rightarrow> string list" where
  "pie_month_options ft = ''All Tickets'' # sort (remdups (map month_year_str ft))"

definition monthly_filtered_data :: "frame \<Rightarrow> string \<Rightarrow> frame" where
  "monthly_filtered_data ft sel =
     (if sel \<noteq> ''All Tickets'' then filter (\<lambda>r. month_year_str r = sel) ft else ft)"

definition data_to_chart_subtype :: "frame \<Rightarrow> (string \<times> nat) list" where
  "data_to_chart_subtype mfd = groupby_agg Subtype count_agg mfd"

definition subtype_options :: "(string \<times> nat) list \<Rightarrow> string list" where
  "subtype_options chart = ''All Subtypes'' # sort (remdups (map fst chart))"

definition filtered_by_subtype :: "frame \<Rightarrow> string \<Rightarrow> frame" where
  "filtered_by_subtype mfd st = filter (\<lambda>r. Subtype r = Some st) mfd"

definition site_breakdown :: "frame \<Rightarrow> (string \<times> nat) list" where
  "site_breakdown fbs = groupby_agg (\<lambda>r. Some (Site r)) count_agg fbs"

section \<open>Session state and the subtype selection (lines 16 to 17 and 230 to 249)\<close>

text \<open>
  \<open>st.session_state\<close> is a dictionary from keys to Python values; the values that
  matter here are \<open>None\<close>, a string (the value of a keyed select box) and a chart
  selection, a dictionary from a field name to the list of selected values.
\<close>

datatype pyval = PyNone | PyStr string | PyDict "(string \<times> string option list) list"

type_synonym session_state = "(string \<times> pyval) list"

text \<open>Python truthiness.\<close>

fun truthy :: "pyval \<Rightarrow> bool" where
  "truthy PyNone = False"
| "truthy (PyStr s) = (s \<noteq> [])"
| "truthy (PyDict d) = (d \<noteq> [])"

text \<open>Lines 16 and 17, the only assignment to the key \<open>selection\<close> in the script.\<close>

definition init_selection :: "session_state \<Rightarrow> session_state" where
  "init_selection ss =
     (case map_of ss ''selection'' of
        None \<Rightarrow> AList.update ''selection'' PyNone ss
      | Some v \<Rightarrow> ss)"

text \<open>
  Lines 231 to 233. Reading the attribute \<open>selection\<close> of a session state without
  that key raises; \<open>.get('Subtype', [None])[0]\<close> needs a dictionary and a
  non-empty list.
\<close>

definition selected_subtype_from_chart :: "session_state \<Rightarrow> error + string option" where
  "selected_subtype_from_chart ss =
     (if ss = [] then Inr None
      else case map_of ss ''selection'' of
        None \<Rightarrow> Inl AttributeError
      | Some v \<Rightarrow>
          if truthy v then
            (case v of
               PyDict d \<Rightarrow>
                 (case (case map_of d ''Subtype'' of None \<Rightarrow> [None] | Some l \<Rightarrow> l) of
                    [] \<Rightarrow> Inl IndexError
                  | x # xs \<Rightarrow> Inr x)
             | PyStr s \<Rightarrow> Inl AttributeError
             | PyNone \<Rightarrow> Inl AttributeError)
          else Inr None)"

fun index_of :: "'a \<Rightarrow> 'a list \<Rightarrow> nat" where
  "index_of x [] = 0"
| "index_of x (y # ys) = (if x = y then 0 else Suc (index_of x ys))"

text \<open>Lines 239 to 241.\<close>

definition initial_index :: "string option \<Rightarrow> string list \<Rightarrow> nat" where
  "initial_index from_chart options =
     (case from_chart of
        None \<Rightarrow> 0
      | Some s \<Rightarrow> if s \<noteq> [] \<and> s \<in> set options then index_of s options else 0)"

text \<open>
  \<open>st.selectbox(label, options, index)\<close>: the value the user picked in the dropdown
  when it is one of the options, the option at \<open>index\<close> otherwise; \<open>None\<close> when there
  is no option, an exception when \<open>index\<close> is out of range.
\<close>

definition selectbox :: "string list \<Rightarrow> nat \<Rightarrow> string option \<Rightarrow> error + string option" where
  "selectbox options index chosen =
     (if options = [] then Inr None
      else if length options \<le> index then Inl StreamlitAPIException
      else case chosen of
        None \<Rightarrow> Inr (Some (options ! index))
      | Some c \<Rightarrow> if c \<in> set options then Inr (Some c) else Inr (Some (options ! index)))"

text \<open>A keyed widget leaves its value in the session state under its key.\<close>

definition widget_value :: "string option \<Rightarrow> pyval" where
  "widget_value v = (case v of None \<Rightarrow> PyNone | Some s \<Rightarrow> PyStr s)"

section \<open>The script\<close>

text \<open>
  What one run of the script shows, in order. Captions, dividers and layout
  containers are left out; every select box, metric, chart and message is kept
  with the data it is given.
\<close>

datatype element =
    Title
  | Warning
  | Select_breakdown_month "string list" "string option"
  | Metric_total_tickets nat
  | Metric_avg_time "real option"
  | Chart_tickets_per_site "(string \<times> nat) list"
  | Chart_monthly_trend "trend_row list"
  | Chart_avg_tickets_by_site "(string \<times> real option) list"
  | Chart_tickets_by_month "(string \<times> nat) list"
  | Select_pie_month "string list" "string option"
  | Chart_subtype_pie "(string \<times> nat) list"
  | Select_subtype "string list" nat "string option"
  | Chart_site_breakdown "(string \<times> nat) list"
  | Info_no_site_data
  | Info_select_subtype

text \<open>
  A browser session: the session state, and what the user last picked in each of
  the three dropdowns (\<open>None\<close> until the user touches one).
\<close>

record session =
  session_state :: session_state
  breakdown_month_choice :: "string option"
  pie_month_choice :: "string option"
  subtype_choice :: "string option"

text \<open>Lines 44 to 89. Comparing the month column with \<open>None\<close> selects no row.\<close>

definition monthly_breakdown_section :: "frame \<Rightarrow> string option \<Rightarrow> error + element list" where
  "monthly_breakdown_section df selected_breakdown_month =
     (let sel = (case selected_breakdown_month of
                   None \<Rightarrow> []
                 | Some m \<Rightarrow> selected_breakdown_df df m)
      in case avg_time_to_close sel of
           Inl e \<Rightarrow> Inl e
         | Inr a \<Rightarrow>
             Inr [Select_breakdown_month (breakdown_month_options df) selected_breakdown_month,
                  Metric_total_tickets (total_tickets sel),
                  Metric_avg_time a,
                  Chart_tickets_per_site (tickets_per_site sel)])"

text \<open>
  Lines 183 to 283. A select box without options returns \<open>None\<close>; comparing a
  column with \<open>None\<close> selects no row.
\<close>

definition subtype_section ::
  "session_state \<Rightarrow> string option \<Rightarrow> string option \<Rightarrow> frame \<Rightarrow> error + (string option \<times> element list)" where
  "subtype_section ss pie_choice sub_choice df =
     (let ft = filtered_tickets df
      in case selectbox (pie_month_options ft) 0 pie_choice of
           Inl e \<Rightarrow> Inl e
         | Inr selected_breakdown_month_pie \<Rightarrow>
             (let mfd = (case selected_breakdown_month_pie of
                           None \<Rightarrow> []
                         | Some m \<Rightarrow> monthly_filtered_data ft m);
                  chart = data_to_chart_subtype mfd
              in case selected_subtype_from_chart ss of
                   Inl e \<Rightarrow> Inl e
                 | Inr from_chart \<Rightarrow>
                     (let options = subtype_options chart;
                          idx = initial_index from_chart options
                      in case selectbox options idx sub_choice of
                           Inl e \<Rightarrow> Inl e
                         | Inr selected_subtype \<Rightarrow>
                             Inr (selected_subtype,
                               [Select_pie_month (pie_month_options ft) selected_breakdown_month_pie,
                                Chart_subtype_pie chart,
                                Select_subtype options idx selected_subtype] @
                               (case selected_subtype of
                                  None \<Rightarrow> [Info_no_site_data]
                                | Some st \<Rightarrow>
                                    if st \<noteq> ''All Subtypes'' then
                                      (let fbs = filtered_by_subtype mfd st
                                       in if fbs \<noteq> [] then [Chart_site_breakdown (site_breakdown fbs)]
                                          else [Info_no_site_data])
                                    else [Info_select_subtype])))))"

text \<open>
  One run of the script on what \<open>fetch_data\<close> returned: the session state it
  leaves, and what it shows or the exception that ends it. What the run wrote to
  the session state before an exception stays written.
\<close>

definition script ::
  "(string \<Rightarrow> timestamp option) \<Rightarrow> (string \<Rightarrow> real option) \<Rightarrow> session \<Rightarrow> frame \<Rightarrow>
     session_state \<times> (error + element list)" where
  "script parse_date parse_num s dispatches_df =
     (let ss = init_selection (session_state s)
      in if dispatches_df \<noteq> [] then
           (case normalize parse_date parse_num dispatches_df of
              Inl e \<Rightarrow> (ss, Inl e)
            | Inr df \<Rightarrow>
                (case selectbox (breakdown_month_options df) 0 (breakdown_month_choice s) of
                   Inl e \<Rightarrow> (ss, Inl e)
                 | Inr selected_breakdown_month \<Rightarrow>
                     (let ss1 = AList.update ''breakdown_month_selector''
                                  (widget_value selected_breakdown_month) ss
                      in case monthly_breakdown_section df selected_breakdown_month of
                           Inl e \<Rightarrow> (ss1, Inl e)
                         | Inr out1 \<Rightarrow>
                             (case monthly_data df of
                                Inl e \<Rightarrow> (ss1, Inl e)
                              | Inr trend \<Rightarrow>
                                  (case subtype_section ss1 (pie_month_choice s) (subtype_choice s) df of
                                     Inl e \<Rightarrow> (ss1, Inl e)
                                   | Inr (selected_subtype, out4) \<Rightarrow>
                                       (AList.update ''subtype_select_box''
                                          (widget_value selected_subtype) ss1,
                                        Inr ([Title] @ out1 @
                                             [Chart_monthly_trend trend,
                                              Chart_avg_tickets_by_site
                                                (avg_tickets_by_site (tickets_per_site_per_month df)),
                                              Chart_tickets_by_month (tickets_by_month df)] @
                                             out4)))))))
         else (ss, Inr [Title, Warning]))"

text \<open>
  What happens between two runs. Picking a value in a dropdown changes that
  dropdown's value. Clicking a slice of the pie chart changes nothing on the
  Python side: the chart is drawn by \<open>st.altair_chart\<close> without \<open>on_select\<close> and
  without a key, so the selection stays in the browser. Every event is followed by
  a run of the script on freshly fetched data.
\<close>

datatype event =
    Pick_breakdown_month string
  | Pick_pie_month string
  | Pick_subtype string
  | Click_pie_slice string
  | Reload

fun apply_event :: "event \<Rightarrow> session \<Rightarrow> session" where
  "apply_event (Pick_breakdown_month m) s = s\<lparr>breakdown_month_choice := Some m\<rparr>"
| "apply_event (Pick_pie_month m) s = s\<lparr>pie_month_choice := Some m\<rparr>"
| "apply_event (Pick_subtype st) s = s\<lparr>subtype_choice := Some st\<rparr>"
| "apply_event (Click_pie_slice st) s = s"
| "apply_event Reload s = s"

definition fresh_session :: session where
  "fresh_session =
     \<lparr>session_state = [], breakdown_month_choice = None, pie_month_choice = None,
      subtype_choice = None\<rparr>"

text \<open>The sessions an execution can be in: before a run of the script.\<close>

inductive reachable ::
  "(string \<Rightarrow> timestamp option) \<Rightarrow> (string \<Rightarrow> real option) \<Rightarrow> session \<Rightarrow> bool"
  for parse_date parse_num where
    first_load: "reachable parse_date parse_num fresh_session"
  | rerun:
      "reachable parse_date parse_num s \<Longrightarrow>
       reachable parse_date parse_num
         (apply_event e (s\<lparr>session_state := fst (script parse_date parse_num s fetched)\<rparr>))"

section \<open>Figures the tables are compared with\<close>

text \<open>The sites of a frame in the order in which each is first seen.\<close>

fun first_seen :: "'a list \<Rightarrow> 'a list" where
  "first_seen [] = []"
| "first_seen (x # xs) = x # filter (\<lambda>y. y \<noteq> x) (first_seen xs)"

text \<open>The months in which a site has a record, and its number of records in a month.\<close>

definition site_months :: "frame \<Rightarrow> string \<Rightarrow> string list" where
  "site_months df s = sort (remdups (map month_year_str (filter (\<lambda>r. Site r = s) df)))"

definition site_month_count :: "frame \<Rightarrow> string \<Rightarrow> string \<Rightarrow> nat" where
  "site_month_count df s m = length (filter (\<lambda>r. Site r = s \<and> month_year_str r = m) df)"

text \<open>
  The single-stage figures the spec sets the two-stage average against. The flat
  per-record average of a site gives every record of the site the ticket count of
  its own (site, month) group and averages over the records. The other figure
  divides the site's number of records by the number of months present in the
  whole frame.
\<close>

definition flat_record_average :: "frame \<Rightarrow> string \<Rightarrow> real option" where
  "flat_record_average df s =
     mean (map (\<lambda>r. real (site_month_count df s (month_year_str r)))
            (filter (\<lambda>r. Site r = s) df))"

definition count_over_total_months :: "frame \<Rightarrow> string \<Rightarrow> real" where
  "count_over_total_months df s =
     real (length (filter (\<lambda>r. Site r = s) df))
       / real (length (remdups (map month_year_str df)))"

text \<open>What line 38 makes of a cell of the \<open>Hours\<close> column.\<close>

fun hours_value :: "(string \<Rightarrow> real option) \<Rightarrow> cell \<Rightarrow> real" where
  "hours_value parse_num Null = 0"
| "hours_value parse_num (Num x) = x"
| "hours_value parse_num (Str s) = (case parse_num s of None \<Rightarrow> 0 | Some x \<Rightarrow> x)"

section \<open>Parsers and frames for the examples\<close>

text \<open>
  Two of the forms the pandas parsers read: an ISO date \<open>YYYY-MM-DD\<close>, and a
  decimal number with an optional sign and an optional fraction.
\<close>

definition digit_val :: "char \<Rightarrow> nat option" where
  "digit_val c =
     (let n = (of_char c :: nat) in if 48 \<le> n \<and> n \<le> 57 then Some (n - 48) else None)"

fun digits_val :: "nat \<Rightarrow> string \<Rightarrow> nat option" where
  "digits_val acc [] = Some acc"
| "digits_val acc (c # cs) =
     (case digit_val c of None \<Rightarrow> None | Some d \<Rightarrow> digits_val (10 * acc + d) cs)"

definition parse_iso_date :: "string \<Rightarrow> timestamp option" where
  "parse_iso_date s =
     (if length s = 10 \<and> s ! 4 = CHR ''-'' \<and> s ! 7 = CHR ''-'' then
        (case (digits_val 0 (take 4 s), digits_val 0 (take 2 (drop 5 s)), digits_val 0 (drop 8 s)) of
           (Some y, Some m, Some d) \<Rightarrow>
             (let i = 12 * int y + int m - 1
              in if 1 \<le> m \<and> m \<le> 12 \<and> 1 \<le> d \<and> d \<le> days_in_month i
                 then Some \<lparr>month_index = i, day = d, nanos = 0\<rparr> else None)
         | _ \<Rightarrow> None)
      else None)"

definition parse_decimal :: "string \<Rightarrow> real option" where
  "parse_decimal s =
     (let neg = (s \<noteq> [] \<and> hd s = CHR ''-'');
          u = (if neg then tl s else s);
          ip = takeWhile (\<lambda>c. c \<noteq> CHR ''.'') u;
          rest = dropWhile (\<lambda>c. c \<noteq> CHR ''.'') u;
          fp = (if rest = [] then [] else tl rest)
      in if ip = [] \<or> (rest \<noteq> [] \<and> fp = []) then None
         else (case (digits_val 0 ip, digits_val 0 fp) of
                 (Some a, Some b) \<Rightarrow>
                   (let v = real a + real b / 10 ^ length fp in Some (if neg then - v else v))
               | _ \<Rightarrow> None))"

text \<open>A row as the server sends it.\<close>

definition fetched_row :: "string \<Rightarrow> cell \<Rightarrow> string \<Rightarrow> string option \<Rightarrow> string option \<Rightarrow> row" where
  "fetched_row d h s st it =
     \<lparr>CheckInDate = DateStr d, Hours = h, Site = s, Subtype = st, Item = it,
      month_year_str = []\<rparr>"

text \<open>The same row after pre-processing, with its hours as a number.\<close>

definition normalized_row :: "int \<Rightarrow> nat \<Rightarrow> nat \<Rightarrow> real \<Rightarrow> string \<Rightarrow> string option \<Rightarrow> string option \<Rightarrow> row" where
  "normalized_row y m d h s st it =
     (let t = \<lparr>month_index = 12 * y + int m - 1, day = d, nanos = 0\<rparr>
      in \<lparr>CheckInDate = Timestamp t, Hours = Num h, Site = s, Subtype = st, Item = it,
          month_year_str = period_str t\<rparr>)"

text \<open>Sites that are first seen in the order B, A within January 2024.\<close>

definition sites_frame :: frame where
  "sites_frame =
     [normalized_row 2024 1 5 1 ''B'' None None, normalized_row 2024 1 9 2 ''A'' None None,
      normalized_row 2024 1 12 3 ''B'' None None]"

text \<open>
  A row is normalized when its date is a timestamp, its month column is the month
  of that timestamp and its hours are a number: what lines 35 to 41 leave behind.
\<close>

definition normalized :: "row \<Rightarrow> bool" where
  "normalized r =
     (case CheckInDate r of
        DateStr s \<Rightarrow> False
      | Timestamp t \<Rightarrow>
          month_year_str r = period_str t \<and> (case Hours r of Num h \<Rightarrow> True | _ \<Rightarrow> False))"


text \<open>The records of the scenario of the spec, as fetched and after pre-processing.\<close>

definition scenario_frame :: frame where
  "scenario_frame =
     [fetched_row ''2024-01-05'' (Num 2) ''A'' None None,
      fetched_row ''2024-01-20'' (Str ''bad'') ''A'' None None,
      fetched_row ''2024-02-01'' (Num 4) ''B'' None None]"

definition scenario_normalized :: frame where
  "scenario_normalized =
     [normalized_row 2024 1 5 2 ''A'' None None,
      normalized_row 2024 1 20 0 ''A'' None None,
      normalized_row 2024 2 1 4 ''B'' None None]"

text \<open>Two records with an empty month, February 2024, between them.\<close>

definition gap_frame :: frame where
  "gap_frame =
     [fetched_row ''2024-01-05'' (Num 2) ''A'' None None,
      fetched_row ''2024-03-20'' (Str ''bad'') ''A'' None None]"

definition gap_normalized :: frame where
  "gap_normalized =
     [normalized_row 2024 1 5 2 ''A'' None None,
      normalized_row 2024 3 20 0 ''A'' None None]"


text \<open>Four records, one without a subtype and one without an item.\<close>

definition subtype_frame :: frame where
  "subtype_frame =
     [normalized_row 2024 1 5 1 ''A'' (Some ''Repair'') (Some ''Printer''),
      normalized_row 2024 1 20 2 ''A'' None (Some ''Printer''),
      normalized_row 2024 2 1 3 ''B'' (Some ''Repair'') None,
      normalized_row 2024 3 20 3 ''B'' (Some ''Install'') (Some ''Laptop'')]"

definition subtype_fetched :: frame where
  "subtype_fetched =
     [fetched_row ''2024-01-05'' (Num 1) ''A'' (Some ''Repair'') (Some ''Printer''),
      fetched_row ''2024-01-20'' (Num 2) ''A'' None (Some ''Printer''),
      fetched_row ''2024-02-01'' (Num 3) ''B'' (Some ''Repair'') None,
      fetched_row ''2024-03-20'' (Num 3) ''B'' (Some ''Install'') (Some ''Laptop'')]"

text \<open>
  The key \<open>selection\<close> is unset when the session state lacks it or holds \<open>None\<close>
  under it.
\<close>

definition selection_unset :: "session_state \<Rightarrow> bool" where
  "selection_unset ss = (case map_of ss ''selection'' of None \<Rightarrow> True | Some v \<Rightarrow> v = PyNone)"


text \<open>
  The session after a first load of the records above and a click on the slice
  \<open>Repair\<close> of the pie chart.
\<close>

definition clicked_session :: session where
  "clicked_session =
     apply_event (Click_pie_slice ''Repair'')
       (fresh_session\<lparr>session_state :=
          fst (script parse_iso_date parse_decimal fresh_session subtype_fetched)\<rparr>)"

text \<open>
  A site with one record in January and three in February 2024; and the same with
  a second site that has a record in January only.
\<close>

definition uneven_frame :: frame where
  "uneven_frame =
     [normalized_row 2024 1 5 1 ''A'' None None,
      normalized_row 2024 2 1 1 ''A'' None None,
      normalized_row 2024 2 2 1 ''A'' None None,
      normalized_row 2024 2 3 1 ''A'' None None]"

definition two_sites_frame :: frame where
  "two_sites_frame = uneven_frame @ [normalized_row 2024 1 7 1 ''B'' None None]"

section \<open>Evaluating the examples\<close>

lemma period_str_2024:
  "period_str \<lparr>month_index = 24288, day = d, nanos = n\<rparr> = ''2024-01''"
  "period_str \<lparr>month_index = 24289, day = d, nanos = n\<rparr> = ''2024-02''"
  "period_str \<lparr>month_index = 24290, day = d, nanos = n\<rparr> = ''2024-03''"
  by (simp_all add: period_str_def ts_year_def ts_month_def digit_char_def Let_def)

lemmas example_simps = normalized_row_def fetched_row_def Let_def period_str_2024

lemma parse_iso_date_examples:
  "parse_iso_date ''2024-01-05'' = Some \<lparr>month_index = 24288, day = 5, nanos = 0\<rparr>"
  "parse_iso_date ''2024-01-20'' = Some \<lparr>month_index = 24288, day = 20, nanos = 0\<rparr>"
  "parse_iso_date ''2024-02-01'' = Some \<lparr>month_index = 24289, day = 1, nanos = 0\<rparr>"
  "parse_iso_date ''2024-03-20'' = Some \<lparr>month_index = 24290, day = 20, nanos = 0\<rparr>"
  by (simp_all add: parse_iso_date_def digit_val_def days_in_month_def is_leap_year_def Let_def)

lemma parse_decimal_bad: "parse_decimal ''bad'' = None"
  by (simp add: parse_decimal_def digit_val_def Let_def)

lemma normalize_scenario:
  "normalize parse_iso_date parse_decimal scenario_frame = Inr scenario_normalized"
  by (simp add: normalize_def scenario_frame_def scenario_normalized_def example_simps
        parse_iso_date_examples parse_decimal_bad)

section \<open>Facts about group-by\<close>

lemma mem_map_filter_key:
  "k \<in> set (List.map_filter key xs) \<longleftrightarrow> (\<exists>r\<in>set xs. key r = Some k)"
  by (induction xs) (auto split: option.splits)

lemma groupby_keys:
  "map fst (groupby_agg key agg df) = sort (remdups (List.map_filter key df))"
  by (simp add: groupby_agg_def comp_def)

lemma groupby_keys_sorted: "sorted (map fst (groupby_agg key agg df))"
  by (simp add: groupby_keys)

lemma groupby_keys_distinct: "distinct (map fst (groupby_agg key agg df))"
  by (simp add: groupby_keys)

lemma groupby_keys_set:
  "set (map fst (groupby_agg key agg df)) = {k. \<exists>r\<in>set df. key r = Some k}"
  by (auto simp: groupby_keys mem_map_filter_key)

lemma groupby_entry:
  "(k, v) \<in> set (groupby_agg key agg df) \<longleftrightarrow>
     (\<exists>r\<in>set df. key r = Some k) \<and> v = agg (filter (\<lambda>r. key r = Some k) df)"
proof -
  have "(k, v) \<in> set (groupby_agg key agg df) \<longleftrightarrow>
        k \<in> set (List.map_filter key df) \<and> v = agg (filter (\<lambda>r. key r = Some k) df)"
    by (auto simp: groupby_agg_def)
  then show ?thesis by (simp add: mem_map_filter_key)
qed

lemma sum_group_sizes:
  assumes "finite K"
  shows "(\<Sum>k\<in>K. length (filter (\<lambda>r. key r = Some k) xs))
       = length (filter (\<lambda>r. key r \<in> Some ` K) xs)"
proof (induction xs)
  case Nil
  then show ?case by simp
next
  case (Cons x xs)
  show ?case
  proof (cases "key x \<in> Some ` K")
    case True
    then obtain k0 where k0: "k0 \<in> K" "key x = Some k0" by auto
    have "(\<Sum>k\<in>K. length (filter (\<lambda>r. key r = Some k) (x # xs)))
        = (\<Sum>k\<in>K. (if k = k0 then 1 else 0) + length (filter (\<lambda>r. key r = Some k) xs))"
      by (rule sum.cong) (auto simp: k0)
    also have "\<dots> = 1 + (\<Sum>k\<in>K. length (filter (\<lambda>r. key r = Some k) xs))"
      using assms k0 by (simp add: sum.distrib)
    finally show ?thesis using True Cons.IH by simp
  next
    case False
    have "(\<Sum>k\<in>K. length (filter (\<lambda>r. key r = Some k) (x # xs)))
        = (\<Sum>k\<in>K. length (filter (\<lambda>r. key r = Some k) xs))"
      by (rule sum.cong) (use False in auto)
    then show ?thesis using False Cons.IH by simp
  qed
qed

lemma groupby_count_sum:
  "sum_list (map snd (groupby_agg key count_agg df)) = length (filter (\<lambda>r. key r \<noteq> None) df)"
proof -
  let ?ks = "sort (remdups (List.map_filter key df))"
  have "sum_list (map snd (groupby_agg key count_agg df))
      = sum_list (map (\<lambda>k. length (filter (\<lambda>r. key r = Some k) df)) ?ks)"
    by (simp add: groupby_agg_def comp_def count_agg_def)
  also have "\<dots> = (\<Sum>k\<in>set ?ks. length (filter (\<lambda>r. key r = Some k) df))"
    by (simp add: sum_list_distinct_conv_sum_set)
  also have "\<dots> = length (filter (\<lambda>r. key r \<in> Some ` set ?ks) df)"
    by (rule sum_group_sizes) simp
  also have "\<dots> = length (filter (\<lambda>r. key r \<noteq> None) df)"
    by (rule arg_cong[where f=length], rule filter_cong) (auto simp: mem_map_filter_key image_iff)
  finally show ?thesis .
qed

section \<open>Monthly breakdown\<close>

text \<open>
  C2. For every frame and every month, the per-site counts of the month's bar
  chart add up to the number of tickets shown for that month: the length of the
  month-filtered frame. Every row has a site and a date (the schema), so the
  group-by drops no row and counts each. It holds for a month absent from the
  frame too, where both sides are 0.
\<close>

theorem per_site_counts_sum_to_total:
  "sum_list (map snd (tickets_per_site (selected_breakdown_df df m)))
     = total_tickets (selected_breakdown_df df m)"
  by (simp add: tickets_per_site_def total_tickets_def groupby_count_sum)

text \<open>
  C5, as the code has it. \<open>groupby('Site')\<close> sorts its keys, and the chart's
  \<open>sort=None\<close> keeps the order of the table: the per-site table of a month lists
  each site of that month once, in ascending order of the site label, whatever
  the order of the records.
\<close>

theorem tickets_per_site_order:
  "sorted (map fst (tickets_per_site (selected_breakdown_df df m)))
   \<and> distinct (map fst (tickets_per_site (selected_breakdown_df df m)))
   \<and> set (map fst (tickets_per_site (selected_breakdown_df df m)))
       = Site ` set (selected_breakdown_df df m)"
proof -
  let ?sel = "selected_breakdown_df df m"
  have "set (map fst (tickets_per_site ?sel)) = Site ` set ?sel"
    unfolding tickets_per_site_def groupby_keys_set by auto
  then show ?thesis
    by (simp only: tickets_per_site_def groupby_keys_sorted groupby_keys_distinct simp_thms)
qed

text \<open>
  C5 as stated fails: with the sites first seen in the order B, A the table reads
  A, B.
\<close>

theorem tickets_per_site_not_first_seen:
  "map fst (tickets_per_site (selected_breakdown_df sites_frame ''2024-01'')) = [''A'', ''B'']
   \<and> first_seen (map Site (selected_breakdown_df sites_frame ''2024-01'')) = [''B'', ''A'']"
  by (simp add: sites_frame_def selected_breakdown_df_def tickets_per_site_def groupby_agg_def
        example_simps)

section \<open>Pre-processing\<close>

lemma fillna_to_numeric: "fillna 0 (to_numeric pn c) = Num (hours_value pn c)"
  by (cases c) (auto split: option.splits)

lemma to_datetime_Inr:
  "to_datetime pd c = Inr d \<Longrightarrow> \<exists>t. d = Timestamp t"
  by (cases c) (auto split: option.splits)

lemma to_datetime_col_Inr:
  "to_datetime_col pd df = Inr df1 \<Longrightarrow>
   list_all2 (\<lambda>r r1. \<exists>t. to_datetime pd (CheckInDate r) = Inr (Timestamp t)
                         \<and> r1 = r\<lparr>CheckInDate := Timestamp t\<rparr>) df df1"
proof (induction df arbitrary: df1)
  case Nil
  then show ?case by simp
next
  case (Cons r rs)
  from Cons.prems obtain d rs' where
    d: "to_datetime pd (CheckInDate r) = Inr d" and
    rs': "to_datetime_col pd rs = Inr rs'" and
    df1: "df1 = r\<lparr>CheckInDate := d\<rparr> # rs'"
    by (auto split: sum.splits)
  from d obtain t where "d = Timestamp t" by (auto dest: to_datetime_Inr)
  with d df1 Cons.IH[OF rs'] show ?case by auto
qed

lemma add_month_year_str_Inr:
  "add_month_year_str df = Inr df2 \<Longrightarrow>
   list_all2 (\<lambda>r r2. \<exists>t. CheckInDate r = Timestamp t
                         \<and> r2 = r\<lparr>month_year_str := period_str t\<rparr>) df df2"
proof (induction df arbitrary: df2)
  case Nil
  then show ?case by simp
next
  case (Cons r rs)
  from Cons.prems obtain m rs' where
    m: "month_year_of (CheckInDate r) = Inr m" and
    rs': "add_month_year_str rs = Inr rs'" and
    df2: "df2 = r\<lparr>month_year_str := m\<rparr> # rs'"
    by (auto split: sum.splits)
  from m obtain t where "CheckInDate r = Timestamp t" "m = period_str t"
    by (cases "CheckInDate r") auto
  with df2 Cons.IH[OF rs'] show ?case by auto
qed

lemma normalize_Inr:
  assumes "normalize pd pn df = Inr df'"
  shows "list_all2 (\<lambda>r r'. \<exists>t. to_datetime pd (CheckInDate r) = Inr (Timestamp t)
            \<and> r' = r\<lparr>CheckInDate := Timestamp t, Hours := Num (hours_value pn (Hours r)),
                       month_year_str := period_str t\<rparr>) df df'"
proof -
  from assms obtain df1 where
    df1: "to_datetime_col pd df = Inr df1" and
    am: "add_month_year_str (map (\<lambda>r. r\<lparr>Hours := fillna 0 (to_numeric pn (Hours r))\<rparr>) df1) = Inr df'"
    by (auto simp: normalize_def split: sum.splits)
  have a: "list_all2 (\<lambda>r r1. \<exists>t. to_datetime pd (CheckInDate r) = Inr (Timestamp t)
                         \<and> r1 = r\<lparr>CheckInDate := Timestamp t\<rparr>) df df1"
    by (rule to_datetime_col_Inr[OF df1])
  have b: "list_all2 (\<lambda>r1 r2. r2 = r1\<lparr>Hours := Num (hours_value pn (Hours r1))\<rparr>) df1
             (map (\<lambda>r. r\<lparr>Hours := fillna 0 (to_numeric pn (Hours r))\<rparr>) df1)"
    by (simp add: list_all2_map2 fillna_to_numeric list_all2_same)
  have c: "list_all2 (\<lambda>r r2. \<exists>t. CheckInDate r = Timestamp t
                         \<and> r2 = r\<lparr>month_year_str := period_str t\<rparr>)
             (map (\<lambda>r. r\<lparr>Hours := fillna 0 (to_numeric pn (Hours r))\<rparr>) df1) df'"
    by (rule add_month_year_str_Inr[OF am])
  have ab: "list_all2 (\<lambda>r r2. \<exists>t. to_datetime pd (CheckInDate r) = Inr (Timestamp t)
              \<and> r2 = r\<lparr>CheckInDate := Timestamp t, Hours := Num (hours_value pn (Hours r))\<rparr>) df
             (map (\<lambda>r. r\<lparr>Hours := fillna 0 (to_numeric pn (Hours r))\<rparr>) df1)"
    by (rule list_all2_trans[OF _ a b]) auto
  show ?thesis
    by (rule list_all2_trans[OF _ ab c]) auto
qed

lemma normalize_normalized:
  assumes "normalize pd pn df = Inr df'"
  shows "\<forall>r\<in>set df'. normalized r"
proof -
  have "list_all2 (\<lambda>r r'. normalized r') df df'"
    by (rule list_all2_mono[OF normalize_Inr[OF assms]]) (auto simp: normalized_def)
  then show ?thesis
    by (auto simp: list_all2_conv_all_nth in_set_conv_nth)
qed

lemma normalized_cases:
  "normalized r \<Longrightarrow> \<exists>t h. CheckInDate r = Timestamp t \<and> Hours r = Num h \<and> month_year_str r = period_str t"
  by (auto simp: normalized_def split: date_cell.splits cell.splits)

lemma to_datetime_col_fixed:
  "\<forall>r\<in>set df. normalized r \<Longrightarrow> to_datetime_col pd df = Inr df"
  by (induction df) (auto dest!: normalized_cases)

lemma add_month_year_str_fixed:
  "\<forall>r\<in>set df. normalized r \<Longrightarrow> add_month_year_str df = Inr df"
  by (induction df) (auto dest!: normalized_cases)

lemma hours_fixed:
  "\<forall>r\<in>set df. normalized r \<Longrightarrow>
   map (\<lambda>r. r\<lparr>Hours := fillna 0 (to_numeric pn (Hours r))\<rparr>) df = df"
  by (induction df) (auto dest!: normalized_cases)

lemma normalize_fixed:
  "\<forall>r\<in>set df. normalized r \<Longrightarrow> normalize pd pn df = Inr df"
  by (simp add: normalize_def to_datetime_col_fixed hours_fixed add_month_year_str_fixed)

text \<open>
  C8. Normalizing is idempotent: running lines 35 to 41 on the frame they have
  produced gives that frame again, and when the first pass raises, so does the
  composition, with the same exception.
\<close>

theorem normalize_idempotent:
  "(case normalize pd pn df of Inl e \<Rightarrow> Inl e | Inr df' \<Rightarrow> normalize pd pn df')
     = normalize pd pn df"
proof (cases "normalize pd pn df")
  case (Inl e)
  then show ?thesis by simp
next
  case (Inr df')
  have "normalize pd pn df' = Inr df'"
    by (rule normalize_fixed) (rule normalize_normalized[OF Inr])
  with Inr show ?thesis by simp
qed

theorem normalize_idempotent_witness:
  "normalize parse_iso_date parse_decimal scenario_frame = Inr scenario_normalized
   \<and> normalize parse_iso_date parse_decimal scenario_normalized = Inr scenario_normalized"
  using normalize_idempotent[of parse_iso_date parse_decimal scenario_frame] normalize_scenario
  by simp

text \<open>
  C4, as the code has it. After pre-processing every hours cell is a number: a
  missing value and a string that is not a number become 0, and a number (given as
  such or as a numeric string) is kept as it is, whatever its sign. So no
  normalized record has negative hours provided no input record carries a
  negative number.
\<close>

theorem normalize_hours:
  assumes "normalize pd pn df = Inr df'"
  shows "map Hours df' = map (\<lambda>r. Num (hours_value pn (Hours r))) df
       \<and> ((\<forall>r\<in>set df. 0 \<le> hours_value pn (Hours r))
           \<longrightarrow> (\<forall>r'\<in>set df'. \<exists>h. Hours r' = Num h \<and> 0 \<le> h))"
proof -
  have "list_all2 (\<lambda>r r'. Hours r' = Num (hours_value pn (Hours r))) df df'"
    by (rule list_all2_mono[OF normalize_Inr[OF assms]]) auto
  then have m: "map Hours df' = map (\<lambda>r. Num (hours_value pn (Hours r))) df"
    by (auto simp: list_all2_conv_all_nth intro: nth_equalityI)
  have "\<forall>r'\<in>set df'. \<exists>h. Hours r' = Num h \<and> 0 \<le> h"
    if "\<forall>r\<in>set df. 0 \<le> hours_value pn (Hours r)"
  proof
    fix r' assume "r' \<in> set df'"
    then have "Hours r' \<in> set (map Hours df')" by simp
    with m obtain r where "r \<in> set df" "Hours r' = Num (hours_value pn (Hours r))" by auto
    with that show "\<exists>h. Hours r' = Num h \<and> 0 \<le> h" by auto
  qed
  with m show ?thesis by blast
qed

theorem normalize_hours_witness:
  "normalize parse_iso_date parse_decimal scenario_frame = Inr scenario_normalized
   \<and> list_all (\<lambda>r. 0 \<le> hours_value parse_decimal (Hours r)) scenario_frame
   \<and> map Hours scenario_normalized = [Num 2, Num 0, Num 4]
   \<and> list_all (\<lambda>r. \<exists>h. Hours r = Num h \<and> 0 \<le> h) scenario_normalized"
proof -
  have h: "list_all (\<lambda>r. 0 \<le> hours_value parse_decimal (Hours r)) scenario_frame"
    by (simp add: scenario_frame_def example_simps parse_decimal_bad)
  from normalize_hours[OF normalize_scenario] h
  have "map Hours scenario_normalized
          = map (\<lambda>r. Num (hours_value parse_decimal (Hours r))) scenario_frame"
    and "list_all (\<lambda>r. \<exists>h. Hours r = Num h \<and> 0 \<le> h) scenario_normalized"
    by (simp_all add: list_all_iff)
  then show ?thesis using h normalize_scenario
    by (simp add: scenario_frame_def example_simps parse_decimal_bad)
qed

text \<open>C4 as stated fails: hours of -1 stay -1.\<close>

theorem normalize_keeps_negative_hours:
  "normalize parse_iso_date parse_decimal [fetched_row ''2024-01-05'' (Num (- 1)) ''A'' None None]
     = Inr [normalized_row 2024 1 5 (- 1) ''A'' None None]
   \<and> Hours (normalized_row 2024 1 5 (- 1) ''A'' None None) = Num (- 1)"
  by (simp add: normalize_def example_simps parse_iso_date_examples)

text \<open>
  C6. The scenario of the spec: three records, the second with the hours
  \<open>"bad"\<close>. For every pair of parsers that read the three dates as written and
  reject \<open>"bad"\<close>, the breakdown of January 2024 has 2 tickets, 1.0 average hours
  and the per-site table A: 2.
\<close>

theorem breakdown_scenario:
  assumes "pd ''2024-01-05'' = Some \<lparr>month_index = 24288, day = 5, nanos = 0\<rparr>"
    and "pd ''2024-01-20'' = Some \<lparr>month_index = 24288, day = 20, nanos = 0\<rparr>"
    and "pd ''2024-02-01'' = Some \<lparr>month_index = 24289, day = 1, nanos = 0\<rparr>"
    and "pn ''bad'' = None"
  shows "\<exists>df. normalize pd pn
            [fetched_row ''2024-01-05'' (Num 2) ''A'' st1 it1,
             fetched_row ''2024-01-20'' (Str ''bad'') ''A'' st2 it2,
             fetched_row ''2024-02-01'' (Num 4) ''B'' st3 it3] = Inr df
          \<and> total_tickets (selected_breakdown_df df ''2024-01'') = 2
          \<and> avg_time_to_close (selected_breakdown_df df ''2024-01'') = Inr (Some 1)
          \<and> tickets_per_site (selected_breakdown_df df ''2024-01'') = [(''A'', 2)]"
  using assms
  by (simp add: normalize_def example_simps selected_breakdown_df_def total_tickets_def
        avg_time_to_close_def series_mean_def mean_def tickets_per_site_def groupby_agg_def
        count_agg_def)

theorem breakdown_scenario_witness:
  "\<exists>df. normalize parse_iso_date parse_decimal scenario_frame = Inr df
          \<and> total_tickets (selected_breakdown_df df ''2024-01'') = 2
          \<and> avg_time_to_close (selected_breakdown_df df ''2024-01'') = Inr (Some 1)
          \<and> tickets_per_site (selected_breakdown_df df ''2024-01'') = [(''A'', 2)]"
  using breakdown_scenario[of parse_iso_date parse_decimal None None None None None None]
  by (simp add: parse_iso_date_examples parse_decimal_bad scenario_frame_def)

section \<open>Monthly trend\<close>

lemma datetime_months_normalized:
  "\<forall>r\<in>set df. normalized r \<Longrightarrow>
   \<exists>ms. datetime_months df = Inr ms \<and> length ms = length df
      \<and> set ms = {i. \<exists>r\<in>set df. cell_month (CheckInDate r) = Some i}"
proof (induction df)
  case Nil
  then show ?case by simp
next
  case (Cons r rs)
  then obtain ms where ms: "datetime_months rs = Inr ms" "length ms = length rs"
    "set ms = {i. \<exists>r\<in>set rs. cell_month (CheckInDate r) = Some i}" by auto
  from Cons.prems obtain t where t: "CheckInDate r = Timestamp t"
    by (auto dest!: normalized_cases)
  have "datetime_months (r # rs) = Inr (month_index t # ms)"
    using ms t by simp
  moreover have "set (month_index t # ms) = {i. \<exists>r'\<in>set (r # rs). cell_month (CheckInDate r') = Some i}"
    using ms t by auto
  ultimately show ?case using ms by auto
qed

lemma numeric_values_Num:
  "\<forall>r\<in>set g. \<exists>h. Hours r = Num h \<Longrightarrow>
   numeric_values (map Hours g) = Inr (map (\<lambda>r. hours_value pn (Hours r)) g)"
  by (induction g) auto

lemma series_mean_normalized:
  assumes "\<forall>r\<in>set df. normalized r" and "set g \<subseteq> set df"
  shows "series_mean (map Hours g) = Inr (mean (map (\<lambda>r. hours_value pn (Hours r)) g))"
proof -
  have "\<forall>r\<in>set g. \<exists>h. Hours r = Num h"
    using assms by (auto dest!: normalized_cases)
  then have "numeric_values (map Hours g) = Inr (map (\<lambda>r. hours_value pn (Hours r)) g)"
    by (rule numeric_values_Num)
  then show ?thesis by (simp add: series_mean_def)
qed

lemma trend_rows_normalized:
  assumes "\<forall>r\<in>set df. normalized r"
  shows "trend_rows df is = Inr (map (\<lambda>i.
           \<lparr>tr_CheckInDate = month_end i, tr_total_tickets = length (in_month df i),
            tr_avg_hours = mean (map (\<lambda>r. hours_value pn (Hours r)) (in_month df i))\<rparr>) is)"
proof (induction "is")
  case Nil
  then show ?case by simp
next
  case (Cons i "is")
  have "series_mean (map Hours (in_month df i))
          = Inr (mean (map (\<lambda>r. hours_value pn (Hours r)) (in_month df i)))"
    by (rule series_mean_normalized[OF assms]) (auto simp: in_month_def)
  with Cons show ?case by (simp add: count_agg_def)
qed

lemma month_end_before: "i < j \<Longrightarrow> ts_before (month_end i) (month_end j)"
  by (simp add: ts_before_def month_end_def)

lemma month_end_inj: "month_end i = month_end j \<longleftrightarrow> i = j"
  by (auto simp: month_end_def)

lemma month_ends_sorted: "sorted_wrt ts_before (map month_end [lo..hi])"
proof -
  have "sorted_wrt (\<lambda>i j. ts_before (month_end i) (month_end j)) [lo..hi]"
    by (rule sorted_wrt_mono_rel[OF _ sorted_wrt_upto]) (simp add: month_end_before)
  then show ?thesis by (simp add: sorted_wrt_map)
qed

lemma monthly_data_normalized:
  assumes n: "\<forall>r\<in>set df. normalized r"
  shows "\<exists>lo hi. monthly_data df = Inr (map (\<lambda>i.
           \<lparr>tr_CheckInDate = month_end i, tr_total_tickets = length (in_month df i),
            tr_avg_hours = mean (map (\<lambda>r. hours_value pn (Hours r)) (in_month df i))\<rparr>) [lo..hi])
         \<and> {lo..hi} = {i. \<exists>a\<in>set df. \<exists>b\<in>set df. \<exists>ia ib.
               cell_month (CheckInDate a) = Some ia \<and> cell_month (CheckInDate b) = Some ib
               \<and> ia \<le> i \<and> i \<le> ib}"
proof -
  let ?M = "{i. \<exists>r\<in>set df. cell_month (CheckInDate r) = Some i}"
  from datetime_months_normalized[OF n] obtain ms where
    ms: "datetime_months df = Inr ms" "length ms = length df" "set ms = ?M" by blast
  let ?row = "\<lambda>i. \<lparr>tr_CheckInDate = month_end i, tr_total_tickets = length (in_month df i),
            tr_avg_hours = mean (map (\<lambda>r. hours_value pn (Hours r)) (in_month df i))\<rparr>"
  show ?thesis
  proof (cases ms)
    case Nil
    with ms have "df = []" by simp
    then have "monthly_data df = Inr (map ?row [1..0])" by (simp add: monthly_data_def)
    moreover have "{1..0::int} = {i. \<exists>a\<in>set df. \<exists>b\<in>set df. \<exists>ia ib.
               cell_month (CheckInDate a) = Some ia \<and> cell_month (CheckInDate b) = Some ib
               \<and> ia \<le> i \<and> i \<le> ib}"
      using \<open>df = []\<close> by simp
    ultimately show ?thesis by blast
  next
    case (Cons m ms')
    let ?lo = "fold min ms' m" and ?hi = "fold max ms' m"
    have lo: "?lo = Min (set ms)" and hi: "?hi = Max (set ms)"
      by (simp_all only: Cons Min.set_eq_fold Max.set_eq_fold)
    have ne: "set ms \<noteq> {}" "finite (set ms)" using Cons by simp_all
    have "monthly_data df = Inr (map ?row [?lo..?hi])"
      using ms Cons by (simp add: monthly_data_def trend_rows_normalized[OF n])
    moreover have "{?lo..?hi} = {i. \<exists>ia\<in>set ms. \<exists>ib\<in>set ms. ia \<le> i \<and> i \<le> ib}"
    proof (intro set_eqI iffI)
      fix i assume "i \<in> {?lo..?hi}"
      then have "Min (set ms) \<le> i" "i \<le> Max (set ms)" by (simp_all add: lo hi)
      moreover have "Min (set ms) \<in> set ms" "Max (set ms) \<in> set ms"
        using ne by (auto intro: Min_in Max_in)
      ultimately show "i \<in> {i. \<exists>ia\<in>set ms. \<exists>ib\<in>set ms. ia \<le> i \<and> i \<le> ib}" by blast
    next
      fix i assume "i \<in> {i. \<exists>ia\<in>set ms. \<exists>ib\<in>set ms. ia \<le> i \<and> i \<le> ib}"
      then obtain ia ib where "ia \<in> set ms" "ib \<in> set ms" "ia \<le> i" "i \<le> ib" by blast
      then have "Min (set ms) \<le> i" "i \<le> Max (set ms)"
        using ne by (meson Min_le Max_ge order_trans)+
      then show "i \<in> {?lo..?hi}" by (simp add: lo hi)
    qed
    moreover have "{i. \<exists>ia\<in>set ms. \<exists>ib\<in>set ms. ia \<le> i \<and> i \<le> ib}
        = {i. \<exists>a\<in>set df. \<exists>b\<in>set df. \<exists>ia ib.
               cell_month (CheckInDate a) = Some ia \<and> cell_month (CheckInDate b) = Some ib
               \<and> ia \<le> i \<and> i \<le> ib}"
      unfolding ms(3) by blast
    ultimately show ?thesis by (metis (no_types, lifting))
  qed
qed

text \<open>
  C3, as the code has it. On a pre-processed frame the trend table has exactly one
  row for every calendar month from the earliest to the latest month present in
  the data, labelled with the month's end, in strictly increasing chronological
  order (so without duplicates). The count of a row is the number of records in
  its month and its average is the mean of their hours: a month of that span in
  which no record falls has a row with count 0 and the undefined average (NaN).
\<close>

theorem monthly_data_rows:
  assumes "normalize pd pn raw = Inr df"
  shows "\<exists>rows. monthly_data df = Inr rows
     \<and> sorted_wrt ts_before (map tr_CheckInDate rows)
     \<and> (\<forall>i. month_end i \<in> set (map tr_CheckInDate rows) \<longleftrightarrow>
            (\<exists>a\<in>set df. \<exists>b\<in>set df. \<exists>ia ib.
               cell_month (CheckInDate a) = Some ia \<and> cell_month (CheckInDate b) = Some ib
               \<and> ia \<le> i \<and> i \<le> ib))
     \<and> (\<forall>row\<in>set rows. \<exists>i. tr_CheckInDate row = month_end i
            \<and> tr_total_tickets row = length (in_month df i)
            \<and> tr_avg_hours row = mean (map (\<lambda>r. hours_value pn (Hours r)) (in_month df i))
            \<and> (in_month df i = [] \<longrightarrow> tr_total_tickets row = 0 \<and> tr_avg_hours row = None))"
proof -
  have n: "\<forall>r\<in>set df. normalized r" by (rule normalize_normalized[OF assms])
  let ?row = "\<lambda>i. \<lparr>tr_CheckInDate = month_end i, tr_total_tickets = length (in_month df i),
            tr_avg_hours = mean (map (\<lambda>r. hours_value pn (Hours r)) (in_month df i))\<rparr>"
  from monthly_data_normalized[OF n, of pn] obtain lo hi where
    md: "monthly_data df = Inr (map ?row [lo..hi])" and
    range: "{lo..hi} = {i. \<exists>a\<in>set df. \<exists>b\<in>set df. \<exists>ia ib.
               cell_month (CheckInDate a) = Some ia \<and> cell_month (CheckInDate b) = Some ib
               \<and> ia \<le> i \<and> i \<le> ib}" by blast
  have lab: "map tr_CheckInDate (map ?row [lo..hi]) = map month_end [lo..hi]"
    by simp
  have s: "sorted_wrt ts_before (map tr_CheckInDate (map ?row [lo..hi]))"
    unfolding lab by (rule month_ends_sorted)
  have m: "month_end i \<in> set (map tr_CheckInDate (map ?row [lo..hi])) \<longleftrightarrow> i \<in> {lo..hi}" for i
    unfolding lab by (auto simp: month_end_inj)
  have c: "\<forall>row\<in>set (map ?row [lo..hi]). \<exists>i. tr_CheckInDate row = month_end i
            \<and> tr_total_tickets row = length (in_month df i)
            \<and> tr_avg_hours row = mean (map (\<lambda>r. hours_value pn (Hours r)) (in_month df i))
            \<and> (in_month df i = [] \<longrightarrow> tr_total_tickets row = 0 \<and> tr_avg_hours row = None)"
    by (auto simp: mean_def)
  from md s m c range show ?thesis
    by (intro exI[of _ "map ?row [lo..hi]"] conjI allI) (simp_all only: mem_Collect_eq)
qed

lemma normalize_gap:
  "normalize parse_iso_date parse_decimal gap_frame = Inr gap_normalized"
  by (simp add: normalize_def gap_frame_def gap_normalized_def example_simps
        parse_iso_date_examples parse_decimal_bad)

theorem monthly_data_rows_witness:
  "normalize parse_iso_date parse_decimal gap_frame = Inr gap_normalized
   \<and> in_month gap_normalized 24289 = []
   \<and> (\<exists>rows. monthly_data gap_normalized = Inr rows
         \<and> sorted_wrt ts_before (map tr_CheckInDate rows)
         \<and> month_end 24288 \<in> set (map tr_CheckInDate rows)
         \<and> month_end 24290 \<in> set (map tr_CheckInDate rows)
         \<and> month_end 24291 \<notin> set (map tr_CheckInDate rows)
         \<and> (\<exists>row. row \<in> set rows \<and> tr_CheckInDate row = month_end 24289
                \<and> tr_total_tickets row = 0 \<and> tr_avg_hours row = None))"
proof -
  have in_range: "(\<exists>a\<in>set gap_normalized. \<exists>b\<in>set gap_normalized. \<exists>ia ib.
               cell_month (CheckInDate a) = Some ia \<and> cell_month (CheckInDate b) = Some ib
               \<and> ia \<le> i \<and> i \<le> ib) \<longleftrightarrow> 24288 \<le> i \<and> i \<le> 24290" for i
    by (auto simp: gap_normalized_def example_simps)
  have empty: "in_month gap_normalized 24289 = []"
    by (simp add: in_month_def gap_normalized_def example_simps)
  from monthly_data_rows[OF normalize_gap] obtain rows where
    md: "monthly_data gap_normalized = Inr rows" and
    so: "sorted_wrt ts_before (map tr_CheckInDate rows)" and
    mem: "\<And>i. month_end i \<in> set (map tr_CheckInDate rows) \<longleftrightarrow> 24288 \<le> i \<and> i \<le> 24290" and
    rows: "\<forall>row\<in>set rows. \<exists>i. tr_CheckInDate row = month_end i
            \<and> tr_total_tickets row = length (in_month gap_normalized i)
            \<and> tr_avg_hours row
                = mean (map (\<lambda>r. hours_value parse_decimal (Hours r)) (in_month gap_normalized i))
            \<and> (in_month gap_normalized i = []
                 \<longrightarrow> tr_total_tickets row = 0 \<and> tr_avg_hours row = None)"
    unfolding in_range by blast
  from mem[of 24289] obtain row where
    row: "row \<in> set rows" "tr_CheckInDate row = month_end 24289" by auto
  from rows row(1) obtain i where
    i: "tr_CheckInDate row = month_end i"
       "in_month gap_normalized i = [] \<longrightarrow> tr_total_tickets row = 0 \<and> tr_avg_hours row = None"
    by blast
  from i(1) row(2) have "i = 24289" by (simp add: month_end_inj)
  with i(2) empty have "tr_total_tickets row = 0 \<and> tr_avg_hours row = None" by simp
  with row have feb: "\<exists>row. row \<in> set rows \<and> tr_CheckInDate row = month_end 24289
                \<and> tr_total_tickets row = 0 \<and> tr_avg_hours row = None" by blast
  from mem have "month_end 24288 \<in> set (map tr_CheckInDate rows)"
    "month_end 24290 \<in> set (map tr_CheckInDate rows)"
    "month_end 24291 \<notin> set (map tr_CheckInDate rows)" by simp_all
  with md so feb normalize_gap empty show ?thesis by blast
qed

text \<open>
  C3 as stated fails: with one record in January and one in March 2024 the table
  has a row for February, in which no record falls.
\<close>

theorem monthly_data_has_empty_month:
  "normalize parse_iso_date parse_decimal gap_frame = Inr gap_normalized
   \<and> monthly_data gap_normalized =
       Inr [\<lparr>tr_CheckInDate = \<lparr>month_index = 24288, day = 31, nanos = 0\<rparr>,
               tr_total_tickets = 1, tr_avg_hours = Some 2\<rparr>,
            \<lparr>tr_CheckInDate = \<lparr>month_index = 24289, day = 29, nanos = 0\<rparr>,
               tr_total_tickets = 0, tr_avg_hours = None\<rparr>,
            \<lparr>tr_CheckInDate = \<lparr>month_index = 24290, day = 31, nanos = 0\<rparr>,
               tr_total_tickets = 1, tr_avg_hours = Some 0\<rparr>]
   \<and> in_month gap_normalized 24289 = []"
  by (simp add: normalize_gap gap_normalized_def monthly_data_def in_month_def series_mean_def
        mean_def count_agg_def month_end_def days_in_month_def is_leap_year_def example_simps)

section \<open>Subtype breakdown\<close>

lemma monthly_filtered_data_filter:
  "monthly_filtered_data (filtered_tickets df) sel
     = filter (\<lambda>r. Subtype r \<noteq> None \<and> Item r \<noteq> None \<and> (sel = ''All Tickets'' \<or> month_year_str r = sel)) df"
  by (auto simp: monthly_filtered_data_def filtered_tickets_def intro: filter_cong)

text \<open>
  C7. In the mode \<open>'All Tickets'\<close> and in the mode of a single month alike, the
  subtype table is the one of the frame without the records that lack a subtype
  or an item; its counts add up to the number of records of the mode that have
  both, and the count of a subtype is the number of such records with that
  subtype.
\<close>

theorem subtype_breakdown_excludes_missing:
  "data_to_chart_subtype (monthly_filtered_data (filtered_tickets df) sel)
     = data_to_chart_subtype (monthly_filtered_data (filtered_tickets
         (filter (\<lambda>r. Subtype r \<noteq> None \<and> Item r \<noteq> None) df)) sel)
   \<and> sum_list (map snd (data_to_chart_subtype (monthly_filtered_data (filtered_tickets df) sel)))
     = length (filter (\<lambda>r. Subtype r \<noteq> None \<and> Item r \<noteq> None
                 \<and> (sel = ''All Tickets'' \<or> month_year_str r = sel)) df)
   \<and> (\<forall>(st, c)\<in>set (data_to_chart_subtype (monthly_filtered_data (filtered_tickets df) sel)).
         c = length (filter (\<lambda>r. Subtype r = Some st \<and> Item r \<noteq> None
                 \<and> (sel = ''All Tickets'' \<or> month_year_str r = sel)) df))"
proof (intro conjI)
  let ?P = "\<lambda>r. Subtype r \<noteq> None \<and> Item r \<noteq> None \<and> (sel = ''All Tickets'' \<or> month_year_str r = sel)"
  show "data_to_chart_subtype (monthly_filtered_data (filtered_tickets df) sel)
     = data_to_chart_subtype (monthly_filtered_data (filtered_tickets
         (filter (\<lambda>r. Subtype r \<noteq> None \<and> Item r \<noteq> None) df)) sel)"
    by (simp add: filtered_tickets_def)
  have "sum_list (map snd (data_to_chart_subtype (filter ?P df)))
      = length (filter (\<lambda>r. Subtype r \<noteq> None) (filter ?P df))"
    by (simp add: data_to_chart_subtype_def groupby_count_sum)
  also have "\<dots> = length (filter ?P df)"
    by (simp add: conj_commute conj_left_commute cong: conj_cong)
  finally show "sum_list (map snd (data_to_chart_subtype (monthly_filtered_data (filtered_tickets df) sel)))
     = length (filter ?P df)"
    by (simp only: monthly_filtered_data_filter)
  show "\<forall>(st, c)\<in>set (data_to_chart_subtype (monthly_filtered_data (filtered_tickets df) sel)).
         c = length (filter (\<lambda>r. Subtype r = Some st \<and> Item r \<noteq> None
                 \<and> (sel = ''All Tickets'' \<or> month_year_str r = sel)) df)"
  proof (clarify)
    fix st c
    assume "(st, c) \<in> set (data_to_chart_subtype (monthly_filtered_data (filtered_tickets df) sel))"
    then have "c = length (filter (\<lambda>r. Subtype r = Some st) (filter ?P df))"
      by (simp add: monthly_filtered_data_filter data_to_chart_subtype_def groupby_entry count_agg_def)
    also have "\<dots> = length (filter (\<lambda>r. Subtype r = Some st \<and> Item r \<noteq> None
                 \<and> (sel = ''All Tickets'' \<or> month_year_str r = sel)) df)"
      by (auto intro!: arg_cong[where f=length] filter_cong)
    finally show "c = length (filter (\<lambda>r. Subtype r = Some st \<and> Item r \<noteq> None
                 \<and> (sel = ''All Tickets'' \<or> month_year_str r = sel)) df)" .
  qed
qed

theorem subtype_breakdown_excludes_missing_witness:
  "data_to_chart_subtype (monthly_filtered_data (filtered_tickets subtype_frame) ''All Tickets'')
     = [(''Install'', 1), (''Repair'', 1)]
   \<and> data_to_chart_subtype (monthly_filtered_data (filtered_tickets subtype_frame) ''2024-01'')
     = [(''Repair'', 1)]
   \<and> (''Repair'', 1) \<in> set (data_to_chart_subtype (monthly_filtered_data (filtered_tickets subtype_frame) ''2024-01''))
   \<and> length (filter (\<lambda>r. Subtype r = Some ''Repair'' \<and> Item r \<noteq> None
                 \<and> (''2024-01'' = ''All Tickets'' \<or> month_year_str r = ''2024-01'')) subtype_frame) = 1"
proof -
  have a: "data_to_chart_subtype (monthly_filtered_data (filtered_tickets subtype_frame) ''All Tickets'')
     = [(''Install'', 1), (''Repair'', 1)]"
    and b: "data_to_chart_subtype (monthly_filtered_data (filtered_tickets subtype_frame) ''2024-01'')
     = [(''Repair'', 1)]"
    by (simp_all add: subtype_frame_def data_to_chart_subtype_def monthly_filtered_data_def
          filtered_tickets_def groupby_agg_def count_agg_def example_simps)
  from b have m: "(''Repair'', 1) \<in> set (data_to_chart_subtype (monthly_filtered_data (filtered_tickets subtype_frame) ''2024-01''))"
    by simp
  from subtype_breakdown_excludes_missing[of subtype_frame "''2024-01''"] m
  have "1 = length (filter (\<lambda>r. Subtype r = Some ''Repair'' \<and> Item r \<noteq> None
                 \<and> (''2024-01'' = ''All Tickets'' \<or> month_year_str r = ''2024-01'')) subtype_frame)"
    by blast
  with a b m show ?thesis by simp
qed
section \<open>Empty input\<close>

text \<open>
  C9. On an empty fetch the script shows its title and the warning and nothing
  else: no aggregate is computed. And each aggregate, applied to a frame without
  rows (as a filter can leave it), returns without raising: the count 0, the
  undefined mean (pandas' NaN, shown as \<open>nan\<close>) and empty tables.
\<close>

theorem empty_fetch_warns:
  "script pd pn s [] = (init_selection (session_state s), Inr [Title, Warning])
   \<and> total_tickets (selected_breakdown_df [] m) = 0
   \<and> avg_time_to_close (selected_breakdown_df [] m) = Inr None
   \<and> tickets_per_site (selected_breakdown_df [] m) = []
   \<and> monthly_data [] = Inr []
   \<and> tickets_per_site_per_month [] = []
   \<and> avg_tickets_by_site (tickets_per_site_per_month []) = []
   \<and> tickets_by_month [] = []
   \<and> data_to_chart_subtype (monthly_filtered_data (filtered_tickets []) sel) = []
   \<and> site_breakdown (filtered_by_subtype (monthly_filtered_data (filtered_tickets []) sel) st) = []"
  by (simp add: script_def total_tickets_def selected_breakdown_df_def
        avg_time_to_close_def series_mean_def mean_def tickets_per_site_def groupby_agg_def
        monthly_data_def tickets_per_site_per_month_def avg_tickets_by_site_def
        tickets_by_month_def data_to_chart_subtype_def monthly_filtered_data_def
        filtered_tickets_def site_breakdown_def filtered_by_subtype_def)

section \<open>The chart selection\<close>

lemma init_selection_unset:
  "selection_unset ss \<Longrightarrow> map_of (init_selection ss) ''selection'' = Some PyNone"
  by (auto simp: selection_unset_def init_selection_def update_conv' split: option.splits)

lemma map_of_update_other:
  "k \<noteq> k' \<Longrightarrow> map_of (AList.update k v ss) k' = map_of ss k'"
  by (simp add: update_conv')

lemma script_keeps_selection:
  "map_of (fst (script pd pn s fetched)) ''selection''
     = map_of (init_selection (session_state s)) ''selection''"
  by (simp add: script_def Let_def map_of_update_other split: sum.splits prod.splits)

lemma apply_event_session_state: "session_state (apply_event e s) = session_state s"
  by (cases e) simp_all

lemma reachable_selection_unset:
  "reachable pd pn s \<Longrightarrow> selection_unset (session_state s)"
proof (induction rule: reachable.induct)
  case first_load
  show ?case by (simp add: fresh_session_def selection_unset_def)
next
  case (rerun s e fetched)
  have "map_of (fst (script pd pn s fetched)) ''selection'' = Some PyNone"
    by (simp add: script_keeps_selection init_selection_unset[OF rerun.IH])
  then show ?case
    by (simp add: apply_event_session_state selection_unset_def)
qed

lemma selected_subtype_from_chart_None:
  "map_of ss ''selection'' = Some PyNone \<Longrightarrow> selected_subtype_from_chart ss = Inr None"
  by (auto simp: selected_subtype_from_chart_def)

lemma monthly_breakdown_section_no_subtype_box:
  "monthly_breakdown_section df m = Inr out1 \<Longrightarrow> Select_subtype options idx v \<notin> set out1"
  by (auto simp: monthly_breakdown_section_def Let_def split: sum.splits)

lemma subtype_section_box:
  assumes "subtype_section ss pc sc df = Inr (sel, out4)"
    and "selected_subtype_from_chart ss = Inr None"
    and "Select_subtype options idx v \<in> set out4"
  shows "idx = 0 \<and> selectbox options 0 sc = Inr v"
  using assms
  by (auto simp: subtype_section_def Let_def initial_index_def
           split: sum.splits option.splits if_splits)

text \<open>
  C10. In every session an execution can reach, whatever the user clicked or
  picked and whatever was fetched: the key \<open>selection\<close> holds \<open>None\<close> when line 232
  reads it and still after the run, the subtype read from the chart is \<open>None\<close>
  (line 233 is never reached), and in a run that completes the subtype select box
  is shown with the initial index 0 and returns what the dropdown gives for that
  index: the user's pick when it is among the options, \<open>All Subtypes\<close> otherwise.
\<close>

theorem chart_selection_never_populated:
  assumes "reachable pd pn s"
  shows "map_of (init_selection (session_state s)) ''selection'' = Some PyNone
     \<and> map_of (fst (script pd pn s fetched)) ''selection'' = Some PyNone
     \<and> selected_subtype_from_chart
          (AList.update ''breakdown_month_selector'' w (init_selection (session_state s))) = Inr None
     \<and> (\<forall>shown options idx v.
           snd (script pd pn s fetched) = Inr shown \<longrightarrow>
           Select_subtype options idx v \<in> set shown \<longrightarrow>
           idx = 0 \<and> selectbox options 0 (subtype_choice s) = Inr v)"
proof -
  let ?ss = "init_selection (session_state s)"
  have u: "selection_unset (session_state s)"
    by (rule reachable_selection_unset[OF assms])
  have a: "map_of ?ss ''selection'' = Some PyNone"
    by (rule init_selection_unset[OF u])
  have b: "map_of (fst (script pd pn s fetched)) ''selection'' = Some PyNone"
    by (simp add: script_keeps_selection a)
  have c: "selected_subtype_from_chart (AList.update ''breakdown_month_selector'' w' ?ss) = Inr None" for w'
    by (rule selected_subtype_from_chart_None) (simp add: map_of_update_other a)
  have d: "idx = 0 \<and> selectbox options 0 (subtype_choice s) = Inr v"
    if run: "snd (script pd pn s fetched) = Inr shown"
      and box: "Select_subtype options idx v \<in> set shown" for shown options idx v
  proof (cases "fetched = []")
    case True
    with run box show ?thesis by (auto simp: script_def)
  next
    case False
    from run False obtain df m out1 trend sel out4 where
      m: "selectbox (breakdown_month_options df) 0 (breakdown_month_choice s) = Inr m" and
      o1: "monthly_breakdown_section df m = Inr out1" and
      o4: "subtype_section (AList.update ''breakdown_month_selector'' (widget_value m) ?ss)
              (pie_month_choice s) (subtype_choice s) df = Inr (sel, out4)" and
      shown: "shown = [Title] @ out1 @
                [Chart_monthly_trend trend,
                 Chart_avg_tickets_by_site (avg_tickets_by_site (tickets_per_site_per_month df)),
                 Chart_tickets_by_month (tickets_by_month df)] @ out4"
      by (auto simp: script_def Let_def split: sum.splits prod.splits)
    from box shown monthly_breakdown_section_no_subtype_box[OF o1]
    have "Select_subtype options idx v \<in> set out4" by auto
    from subtype_section_box[OF o4 c this] show ?thesis .
  qed
  from a b c d show ?thesis by blast
qed

lemma normalize_subtype:
  "normalize parse_iso_date parse_decimal subtype_fetched = Inr subtype_frame"
  by (simp add: normalize_def subtype_fetched_def subtype_frame_def example_simps
        parse_iso_date_examples)

lemma subtype_fetched_nonempty: "subtype_fetched \<noteq> []"
  by (simp add: subtype_fetched_def)

lemma clicked_session_eq:
  "clicked_session =
     \<lparr>session_state =
        [(''selection'', PyNone), (''breakdown_month_selector'', PyStr ''2024-03''),
         (''subtype_select_box'', PyStr ''All Subtypes'')],
      breakdown_month_choice = None, pie_month_choice = None, subtype_choice = None\<rparr>"
  by (simp add: clicked_session_def fresh_session_def script_def normalize_subtype
        subtype_fetched_nonempty subtype_frame_def example_simps init_selection_def selectbox_def
        breakdown_month_options_def widget_value_def monthly_breakdown_section_def
        selected_breakdown_df_def avg_time_to_close_def series_mean_def mean_def
        monthly_data_def in_month_def subtype_section_def filtered_tickets_def
        pie_month_options_def monthly_filtered_data_def data_to_chart_subtype_def
        groupby_agg_def selected_subtype_from_chart_def subtype_options_def initial_index_def)

lemma script_clicked_session:
  "snd (script parse_iso_date parse_decimal clicked_session subtype_fetched) =
     Inr [Title,
          Select_breakdown_month [''2024-03'', ''2024-02'', ''2024-01''] (Some ''2024-03''),
          Metric_total_tickets 1, Metric_avg_time (Some 3),
          Chart_tickets_per_site [(''B'', 1)],
          Chart_monthly_trend
            [\<lparr>tr_CheckInDate = \<lparr>month_index = 24288, day = 31, nanos = 0\<rparr>,
                tr_total_tickets = 2, tr_avg_hours = Some (3 / 2)\<rparr>,
             \<lparr>tr_CheckInDate = \<lparr>month_index = 24289, day = 29, nanos = 0\<rparr>,
                tr_total_tickets = 1, tr_avg_hours = Some 3\<rparr>,
             \<lparr>tr_CheckInDate = \<lparr>month_index = 24290, day = 31, nanos = 0\<rparr>,
                tr_total_tickets = 1, tr_avg_hours = Some 3\<rparr>],
          Chart_avg_tickets_by_site [(''A'', Some 2), (''B'', Some 1)],
          Chart_tickets_by_month [(''2024-01'', 2), (''2024-02'', 1), (''2024-03'', 1)],
          Select_pie_month [''All Tickets'', ''2024-01'', ''2024-03''] (Some ''All Tickets''),
          Chart_subtype_pie [(''Install'', 1), (''Repair'', 1)],
          Select_subtype [''All Subtypes'', ''Install'', ''Repair''] 0 (Some ''All Subtypes''),
          Info_select_subtype]"
  by (simp add: clicked_session_eq script_def normalize_subtype
        subtype_fetched_nonempty subtype_frame_def example_simps init_selection_def selectbox_def
        breakdown_month_options_def widget_value_def monthly_breakdown_section_def
        selected_breakdown_df_def avg_time_to_close_def series_mean_def mean_def
        total_tickets_def tickets_per_site_def count_agg_def
        monthly_data_def in_month_def month_end_def days_in_month_def is_leap_year_def
        tickets_per_site_per_month_def avg_tickets_by_site_def tickets_by_month_def
        subtype_section_def filtered_tickets_def
        pie_month_options_def monthly_filtered_data_def data_to_chart_subtype_def
        groupby_agg_def selected_subtype_from_chart_def subtype_options_def initial_index_def)

theorem chart_selection_never_populated_witness:
  "reachable parse_iso_date parse_decimal clicked_session
   \<and> Select_subtype [''All Subtypes'', ''Install'', ''Repair''] 0 (Some ''All Subtypes'')
       \<in> set (projr (snd (script parse_iso_date parse_decimal clicked_session subtype_fetched)))
   \<and> selectbox [''All Subtypes'', ''Install'', ''Repair''] 0 (subtype_choice clicked_session)
       = Inr (Some ''All Subtypes'')
   \<and> map_of (fst (script parse_iso_date parse_decimal clicked_session subtype_fetched))
        ''selection'' = Some PyNone"
proof -
  have r: "reachable parse_iso_date parse_decimal clicked_session"
    unfolding clicked_session_def by (rule rerun[OF first_load])
  have box: "Select_subtype [''All Subtypes'', ''Install'', ''Repair''] 0 (Some ''All Subtypes'')
       \<in> set (projr (snd (script parse_iso_date parse_decimal clicked_session subtype_fetched)))"
    by (simp add: script_clicked_session)
  from chart_selection_never_populated[OF r, of subtype_fetched] script_clicked_session
  have "selectbox [''All Subtypes'', ''Install'', ''Repair''] 0 (subtype_choice clicked_session)
       = Inr (Some ''All Subtypes'')"
    and "map_of (fst (script parse_iso_date parse_decimal clicked_session subtype_fetched))
        ''selection'' = Some PyNone"
    by simp_all
  with r box show ?thesis by simp
qed

section \<open>Average ticket count per site\<close>

lemma map_filter_Some: "List.map_filter (\<lambda>r. Some (f r)) xs = map f xs"
  by (induction xs) auto

lemma map_filter_site_key:
  "List.map_filter (\<lambda>((s, m), c). Some s) xs = map (\<lambda>x. fst (fst x)) xs"
  by (induction xs) auto

lemma sort_remdups_cong: "set xs = set ys \<Longrightarrow> sort (remdups xs) = sort (remdups ys)"
  by (metis sorted_list_of_set_sort_remdups)

lemma sorted_map_Pair: "sorted xs \<Longrightarrow> sorted (map (Pair s) xs)"
  by (induction xs) auto

lemma filter_fst_sort_remdups:
  fixes ps :: "('a::linorder \<times> 'b::linorder) list"
  shows "filter (\<lambda>p. fst p = s) (sort (remdups ps))
       = map (Pair s) (sort (remdups (map snd (filter (\<lambda>p. fst p = s) ps))))"
proof (rule sorted_distinct_set_unique)
  show "sorted (filter (\<lambda>p. fst p = s) (sort (remdups ps)))"
    by (rule sorted_wrt_filter) simp
  show "distinct (filter (\<lambda>p. fst p = s) (sort (remdups ps)))" by simp
  show "sorted (map (Pair s) (sort (remdups (map snd (filter (\<lambda>p. fst p = s) ps)))))"
    by (rule sorted_map_Pair) simp
  show "distinct (map (Pair s) (sort (remdups (map snd (filter (\<lambda>p. fst p = s) ps)))))"
    by (simp add: distinct_map inj_on_def)
  show "set (filter (\<lambda>p. fst p = s) (sort (remdups ps)))
      = set (map (Pair s) (sort (remdups (map snd (filter (\<lambda>p. fst p = s) ps)))))"
    by (auto simp: image_iff)
qed

lemma tickets_per_site_per_month_eq:
  "tickets_per_site_per_month df
     = map (\<lambda>k. (k, site_month_count df (fst k) (snd k)))
         (sort (remdups (map (\<lambda>r. (Site r, month_year_str r)) df)))"
proof -
  have "length (filter (\<lambda>r. Site r = fst k \<and> month_year_str r = snd k) df)
      = site_month_count df (fst k) (snd k)" for k
    by (simp add: site_month_count_def)
  then show ?thesis
    by (simp add: tickets_per_site_per_month_def groupby_agg_def map_filter_Some count_agg_def
          prod_eq_iff)
qed

lemma site_group:
  "filter (\<lambda>x. fst (fst x) = s) (tickets_per_site_per_month df)
     = map (\<lambda>m. ((s, m), site_month_count df s m)) (site_months df s)"
proof -
  let ?ps = "map (\<lambda>r. (Site r, month_year_str r)) df"
  have f: "(\<lambda>x. fst (fst x) = s) \<circ> (\<lambda>k. (k, site_month_count df (fst k) (snd k)))
           = (\<lambda>p. fst p = s)"
    by (auto simp: fun_eq_iff)
  have "filter (\<lambda>x. fst (fst x) = s) (tickets_per_site_per_month df)
      = map (\<lambda>k. (k, site_month_count df (fst k) (snd k))) (filter (\<lambda>p. fst p = s) (sort (remdups ?ps)))"
    by (simp only: tickets_per_site_per_month_eq filter_map f)
  also have "filter (\<lambda>p. fst p = s) (sort (remdups ?ps))
      = map (Pair s) (sort (remdups (map snd (filter (\<lambda>p. fst p = s) ?ps))))"
    by (rule filter_fst_sort_remdups)
  also have "map snd (filter (\<lambda>p. fst p = s) ?ps) = map month_year_str (filter (\<lambda>r. Site r = s) df)"
    by (simp add: filter_map comp_def)
  finally show ?thesis by (simp add: site_months_def comp_def)
qed

lemma avg_tickets_by_site_eq:
  "avg_tickets_by_site (tickets_per_site_per_month df)
     = map (\<lambda>s. (s, mean (map (\<lambda>m. real (site_month_count df s m)) (site_months df s))))
         (sort (remdups (map Site df)))"
proof -
  have keys: "sort (remdups (List.map_filter (\<lambda>((s, m), c). Some s) (tickets_per_site_per_month df)))
            = sort (remdups (map Site df))"
  proof -
    have a: "List.map_filter (\<lambda>((s, m), c). Some s) (tickets_per_site_per_month df)
        = map (\<lambda>x. fst (fst x)) (tickets_per_site_per_month df)"
      by (rule map_filter_site_key)
    have b: "set (map (\<lambda>x. fst (fst x)) (tickets_per_site_per_month df)) = set (map Site df)"
      by (auto simp: tickets_per_site_per_month_eq image_iff)
    show ?thesis unfolding a by (rule sort_remdups_cong[OF b])
  qed
  have "avg_tickets_by_site (tickets_per_site_per_month df)
      = map (\<lambda>s. (s, mean (map (\<lambda>(k, c). real c)
              (filter (\<lambda>x. fst (fst x) = s) (tickets_per_site_per_month df)))))
          (sort (remdups (map Site df)))"
    unfolding avg_tickets_by_site_def groupby_agg_def keys
    by (simp add: case_prod_beta)
  then show ?thesis by (simp add: site_group comp_def)
qed

lemma sum_sq_strict:
  fixes f :: "'a \<Rightarrow> real"
  assumes fin: "finite M" and m1: "m1 \<in> M" and m2: "m2 \<in> M" and ne: "f m1 \<noteq> f m2"
  shows "(sum f M)\<^sup>2 < real (card M) * (\<Sum>m\<in>M. (f m)\<^sup>2)"
proof -
  let ?k = "real (card M)"
  let ?S = "sum f M"
  let ?mu = "?S / ?k"
  have k: "0 < ?k" using fin m1 by (auto simp: card_gt_0_iff)
  obtain m where m: "m \<in> M" "f m \<noteq> ?mu" using m1 m2 ne by metis
  have "0 < (\<Sum>m\<in>M. (f m - ?mu)\<^sup>2)"
    by (rule sum_pos2[OF fin m(1)]) (use m(2) in auto)
  also have "(\<Sum>m\<in>M. (f m - ?mu)\<^sup>2)
           = (\<Sum>m\<in>M. (f m)\<^sup>2 - 2 * ?mu * f m + ?mu\<^sup>2)"
    by (rule sum.cong) (simp_all add: power2_diff algebra_simps)
  also have "\<dots> = (\<Sum>m\<in>M. (f m)\<^sup>2) - 2 * ?mu * ?S + ?k * ?mu\<^sup>2"
    by (simp add: sum.distrib sum_subtractf sum_distrib_left)
  also have "\<dots> = (\<Sum>m\<in>M. (f m)\<^sup>2) - ?S\<^sup>2 / ?k"
    using k by (simp add: field_simps power2_eq_square)
  finally have "?S\<^sup>2 / ?k < (\<Sum>m\<in>M. (f m)\<^sup>2)" by simp
  then show ?thesis using k by (simp add: field_simps)
qed

lemma sum_list_by_key:
  fixes g :: "'k \<Rightarrow> real"
  assumes "finite K"
  shows "key ` set xs \<subseteq> K \<Longrightarrow>
         sum_list (map (\<lambda>r. g (key r)) xs)
           = (\<Sum>k\<in>K. real (length (filter (\<lambda>r. key r = k) xs)) * g k)"
proof (induction xs)
  case Nil
  then show ?case by simp
next
  case (Cons x xs)
  then have kx: "key x \<in> K" and sub: "key ` set xs \<subseteq> K" by auto
  have "(\<Sum>k\<in>K. real (length (filter (\<lambda>r. key r = k) (x # xs))) * g k)
      = (\<Sum>k\<in>K. (if k = key x then g k else 0)
                  + real (length (filter (\<lambda>r. key r = k) xs)) * g k)"
    by (rule sum.cong) (auto simp: algebra_simps)
  also have "\<dots> = g (key x) + (\<Sum>k\<in>K. real (length (filter (\<lambda>r. key r = k) xs)) * g k)"
    using assms kx by (simp add: sum.distrib)
  finally show ?case using Cons.IH[OF sub] by simp
qed

lemma site_months_set:
  "set (site_months df s) = month_year_str ` set (filter (\<lambda>r. Site r = s) df)"
  by (simp add: site_months_def)

lemma site_months_distinct: "distinct (site_months df s)"
  by (simp add: site_months_def)

lemma site_month_count_filter:
  "site_month_count df s m
     = length (filter (\<lambda>r. month_year_str r = m) (filter (\<lambda>r. Site r = s) df))"
  by (simp add: site_month_count_def conj_commute)

lemma site_month_count_pos:
  "m \<in> set (site_months df s) \<longleftrightarrow> 0 < site_month_count df s m"
  by (auto simp: site_months_set site_month_count_filter length_greater_0_conv filter_empty_conv
        simp del: filter_filter)

lemma sum_site_month_counts:
  "(\<Sum>m\<in>set (site_months df s). real (site_month_count df s m))
     = real (length (filter (\<lambda>r. Site r = s) df))"
proof -
  let ?R = "filter (\<lambda>r. Site r = s) df"
  have "sum_list (map (\<lambda>r. (\<lambda>m. 1::real) (month_year_str r)) ?R)
      = (\<Sum>m\<in>set (site_months df s).
           real (length (filter (\<lambda>r. month_year_str r = m) ?R)) * 1)"
    by (rule sum_list_by_key) (simp_all add: site_months_set)
  then show ?thesis
    by (simp add: site_month_count_filter sum_list_triv del: filter_filter)
qed

lemma two_stage_value:
  assumes "s \<in> Site ` set df"
  shows "mean (map (\<lambda>m. real (site_month_count df s m)) (site_months df s))
       = Some (real (length (filter (\<lambda>r. Site r = s) df))
               / real (card (set (site_months df s))))"
proof -
  have "set (site_months df s) \<noteq> {}"
    using assms by (auto simp: site_months_set)
  then have ne: "site_months df s \<noteq> []" by auto
  have "sum_list (map (\<lambda>m. real (site_month_count df s m)) (site_months df s))
      = (\<Sum>m\<in>set (site_months df s). real (site_month_count df s m))"
    by (simp add: sum_list_distinct_conv_sum_set site_months_distinct)
  then show ?thesis using ne
    by (simp add: mean_def sum_site_month_counts distinct_card[OF site_months_distinct])
qed

lemma flat_value:
  assumes "s \<in> Site ` set df"
  shows "flat_record_average df s
       = Some ((\<Sum>m\<in>set (site_months df s).
                  real (site_month_count df s m) * real (site_month_count df s m))
               / real (length (filter (\<lambda>r. Site r = s) df)))"
proof -
  let ?R = "filter (\<lambda>r. Site r = s) df"
  have ne: "?R \<noteq> []" using assms by (auto simp: filter_empty_conv)
  have "sum_list (map (\<lambda>r. (\<lambda>m. real (site_month_count df s m)) (month_year_str r)) ?R)
      = (\<Sum>m\<in>set (site_months df s).
           real (length (filter (\<lambda>r. month_year_str r = m) ?R)) * real (site_month_count df s m))"
    by (rule sum_list_by_key) (simp_all add: site_months_set)
  then show ?thesis using ne
    by (simp add: flat_record_average_def mean_def site_month_count_filter del: filter_filter)
qed

lemma two_stage_not_count_over_total:
  assumes s: "s \<in> Site ` set df"
    and absent: "\<exists>r\<in>set df. month_year_str r \<notin> set (site_months df s)"
  shows "mean (map (\<lambda>m. real (site_month_count df s m)) (site_months df s))
           \<noteq> Some (count_over_total_months df s)"
proof -
  let ?n = "real (length (filter (\<lambda>r. Site r = s) df))"
  let ?M = "set (site_months df s)"
  let ?A = "set (map month_year_str df)"
  have n: "0 < ?n" using s by (auto simp: filter_empty_conv)
  have "?M \<subset> ?A" using absent by (auto simp: site_months_set)
  then have "card ?M < card ?A" by (simp add: psubset_card_mono)
  moreover have "0 < card ?M" using s by (auto simp: card_gt_0_iff site_months_set)
  ultimately have "?n / real (card ?M) \<noteq> ?n / real (card ?A)"
    using n by (simp add: field_simps)
  moreover have "count_over_total_months df s = ?n / real (card ?A)"
    by (simp add: count_over_total_months_def length_remdups_card_conv)
  ultimately show ?thesis by (simp add: two_stage_value[OF s])
qed

lemma two_stage_not_flat:
  assumes s: "s \<in> Site ` set df"
    and uneven: "\<exists>m1\<in>set (site_months df s). \<exists>m2\<in>set (site_months df s).
                   site_month_count df s m1 \<noteq> site_month_count df s m2"
  shows "mean (map (\<lambda>m. real (site_month_count df s m)) (site_months df s))
           \<noteq> flat_record_average df s"
proof -
  let ?n = "real (length (filter (\<lambda>r. Site r = s) df))"
  let ?M = "set (site_months df s)"
  let ?c = "\<lambda>m. real (site_month_count df s m)"
  let ?Q = "\<Sum>m\<in>?M. ?c m * ?c m"
  have n: "0 < ?n" using s by (auto simp: filter_empty_conv)
  have k: "0 < real (card ?M)" using s by (auto simp: card_gt_0_iff site_months_set)
  from uneven obtain m1 m2 where "m1 \<in> ?M" "m2 \<in> ?M" "?c m1 \<noteq> ?c m2" by auto
  then have "(sum ?c ?M)\<^sup>2 < real (card ?M) * (\<Sum>m\<in>?M. (?c m)\<^sup>2)"
    by (intro sum_sq_strict[of ?M m1 m2]) simp_all
  then have lt: "?n * ?n < real (card ?M) * ?Q"
    by (simp add: sum_site_month_counts power2_eq_square)
  have "?n / real (card ?M) \<noteq> ?Q / ?n"
  proof
    assume "?n / real (card ?M) = ?Q / ?n"
    then have "?n * ?n = ?Q * real (card ?M)"
      by (simp only: frac_eq_eq[OF not_sym[OF less_imp_neq[OF k]] not_sym[OF less_imp_neq[OF n]]])
    with lt show False by (simp add: mult.commute)
  qed
  then show ?thesis by (simp add: two_stage_value[OF s] flat_value[OF s])
qed

text \<open>
  C1, as the code has it. The table of line 142 lists every site once, in
  ascending order, with the mean of the site's per-(site, month) ticket counts
  taken over the months in which the site has at least one record. That mean
  differs from the site's count divided by the number of months of the whole
  frame whenever the site is absent in some month, and from the flat per-record
  average whenever the site's monthly volumes are unequal.
\<close>

theorem avg_tickets_by_site_two_stage:
  "avg_tickets_by_site (tickets_per_site_per_month df)
     = map (\<lambda>s. (s, mean (map (\<lambda>m. real (site_month_count df s m)) (site_months df s))))
         (sort (remdups (map Site df)))
   \<and> (\<forall>s m. m \<in> set (site_months df s) \<longleftrightarrow> 0 < site_month_count df s m)
   \<and> (\<forall>(s, a)\<in>set (avg_tickets_by_site (tickets_per_site_per_month df)).
         ((\<exists>r\<in>set df. month_year_str r \<notin> set (site_months df s))
            \<longrightarrow> a \<noteq> Some (count_over_total_months df s))
       \<and> ((\<exists>m1\<in>set (site_months df s). \<exists>m2\<in>set (site_months df s).
               site_month_count df s m1 \<noteq> site_month_count df s m2)
            \<longrightarrow> a \<noteq> flat_record_average df s))"
proof (intro conjI)
  show "avg_tickets_by_site (tickets_per_site_per_month df)
     = map (\<lambda>s. (s, mean (map (\<lambda>m. real (site_month_count df s m)) (site_months df s))))
         (sort (remdups (map Site df)))"
    by (rule avg_tickets_by_site_eq)
  show "\<forall>s m. m \<in> set (site_months df s) \<longleftrightarrow> 0 < site_month_count df s m"
    by (simp add: site_month_count_pos)
  show "\<forall>(s, a)\<in>set (avg_tickets_by_site (tickets_per_site_per_month df)).
         ((\<exists>r\<in>set df. month_year_str r \<notin> set (site_months df s))
            \<longrightarrow> a \<noteq> Some (count_over_total_months df s))
       \<and> ((\<exists>m1\<in>set (site_months df s). \<exists>m2\<in>set (site_months df s).
               site_month_count df s m1 \<noteq> site_month_count df s m2)
            \<longrightarrow> a \<noteq> flat_record_average df s)"
  proof (clarify, intro conjI impI)
    fix s a
    assume "(s, a) \<in> set (avg_tickets_by_site (tickets_per_site_per_month df))"
    then have s: "s \<in> Site ` set df"
      and a: "a = mean (map (\<lambda>m. real (site_month_count df s m)) (site_months df s))"
      by (auto simp: avg_tickets_by_site_eq)
    show "a \<noteq> Some (count_over_total_months df s)"
      if "\<exists>r\<in>set df. month_year_str r \<notin> set (site_months df s)"
      unfolding a by (rule two_stage_not_count_over_total[OF s that])
    show "a \<noteq> flat_record_average df s"
      if "\<exists>m1\<in>set (site_months df s). \<exists>m2\<in>set (site_months df s).
               site_month_count df s m1 \<noteq> site_month_count df s m2"
      unfolding a by (rule two_stage_not_flat[OF s that])
  qed
qed

lemma avg_two_sites:
  "avg_tickets_by_site (tickets_per_site_per_month two_sites_frame)
     = [(''A'', Some 2), (''B'', Some 1)]"
  by (simp add: two_sites_frame_def uneven_frame_def tickets_per_site_per_month_def
        avg_tickets_by_site_def groupby_agg_def count_agg_def mean_def example_simps)

theorem avg_tickets_by_site_two_stage_witness:
  "avg_tickets_by_site (tickets_per_site_per_month two_sites_frame)
     = [(''A'', Some 2), (''B'', Some 1)]
   \<and> site_months two_sites_frame ''B'' = [''2024-01'']
   \<and> Some 1 \<noteq> Some (count_over_total_months two_sites_frame ''B'')
   \<and> site_month_count two_sites_frame ''A'' ''2024-01'' = 1
   \<and> site_month_count two_sites_frame ''A'' ''2024-02'' = 3
   \<and> Some 2 \<noteq> flat_record_average two_sites_frame ''A''"
proof -
  have mB: "site_months two_sites_frame ''B'' = [''2024-01'']"
    and mA: "site_months two_sites_frame ''A'' = [''2024-01'', ''2024-02'']"
    and c1: "site_month_count two_sites_frame ''A'' ''2024-01'' = 1"
    and c2: "site_month_count two_sites_frame ''A'' ''2024-02'' = 3"
    by (simp_all add: two_sites_frame_def uneven_frame_def site_months_def site_month_count_def
          example_simps)
  have absent: "\<exists>r\<in>set two_sites_frame. month_year_str r \<notin> set (site_months two_sites_frame ''B'')"
    unfolding mB by (simp add: two_sites_frame_def uneven_frame_def example_simps)
  have uneven: "\<exists>m1\<in>set (site_months two_sites_frame ''A''). \<exists>m2\<in>set (site_months two_sites_frame ''A'').
      site_month_count two_sites_frame ''A'' m1 \<noteq> site_month_count two_sites_frame ''A'' m2"
    unfolding mA
    by (rule bexI[of _ "''2024-01''"], rule bexI[of _ "''2024-02''"]) (simp_all add: c1 c2)
  have inA: "(''A'', Some 2) \<in> set (avg_tickets_by_site (tickets_per_site_per_month two_sites_frame))"
    and inB: "(''B'', Some 1) \<in> set (avg_tickets_by_site (tickets_per_site_per_month two_sites_frame))"
    by (simp_all add: avg_two_sites)
  from avg_tickets_by_site_two_stage[of two_sites_frame] inA uneven
  have "Some 2 \<noteq> flat_record_average two_sites_frame ''A''" by blast
  moreover from avg_tickets_by_site_two_stage[of two_sites_frame] inB absent
  have "Some 1 \<noteq> Some (count_over_total_months two_sites_frame ''B'')" by blast
  ultimately show ?thesis using avg_two_sites mB c1 c2 by simp
qed

text \<open>
  C1 as stated fails: a site present in both months of the frame with unequal
  volumes, 1 and 3, has the two-stage average 2, which is its count over the
  total number of months, 4 / 2.
\<close>

theorem two_stage_equals_count_over_months:
  "avg_tickets_by_site (tickets_per_site_per_month uneven_frame) = [(''A'', Some 2)]
   \<and> count_over_total_months uneven_frame ''A'' = 2
   \<and> site_month_count uneven_frame ''A'' ''2024-01'' = 1
   \<and> site_month_count uneven_frame ''A'' ''2024-02'' = 3"
  by (simp add: uneven_frame_def tickets_per_site_per_month_def avg_tickets_by_site_def
        groupby_agg_def count_agg_def mean_def count_over_total_months_def
        site_month_count_def example_simps)

end
